theory Spec2Isabelle
  imports Complex_Main "HOL-Library.AList"
begin

section \<open>Python values, exceptions and dictionaries\<close>

text \<open>
  The inference engine of \<^verbatim>\<open>scripts/ml_inference.py\<close> (class \<^verbatim>\<open>CyberAttackPredictor\<close>) is
  embedded function by function. A Python \<^verbatim>\<open>str\<close> is a \<^typ>\<open>string\<close>, one \<^typ>\<open>char\<close> per
  code point (so the model covers the code points below 256); a Python \<^verbatim>\<open>float\<close> is a
  \<^typ>\<open>real\<close>, i.e. arithmetic is exact and rounding is not modelled; a Python \<^verbatim>\<open>int\<close> is an
  \<^typ>\<open>int\<close>. An exception is a value of type \<open>error\<close>, and a function that can raise
  returns \<open>error + 'a\<close>. Output on \<^verbatim>\<open>stdout\<close> (\<^verbatim>\<open>print\<close>) is not modelled.
\<close>

datatype error =
    NameError string
  | KeyError string
  | ValueError string
  | LibraryError string

text \<open>\<^verbatim>\<open>str(e)\<close> of an exception.\<close>

fun error_str :: "error \<Rightarrow> string" where
  "error_str (NameError n) = ''name '' @ [CHR 0x27] @ n @ [CHR 0x27] @ '' is not defined''"
| "error_str (KeyError k) = [CHR 0x27] @ k @ [CHR 0x27]"
| "error_str (ValueError m) = m"
| "error_str (LibraryError m) = m"

datatype pyval =
    PInt int
  | PFloat real
  | PStr string
  | PDict "(string \<times> pyval) list"

text \<open>
  A \<^verbatim>\<open>dict\<close> with string keys is an association list in insertion order with distinct
  keys. \<^verbatim>\<open>d[k] = v\<close> is \<^const>\<open>AList.update\<close>: it overwrites in place or appends.
\<close>

type_synonym 'v dict = "(string \<times> 'v) list"

definition dict_get :: "'v dict \<Rightarrow> string \<Rightarrow> 'v \<Rightarrow> 'v" where
  "dict_get d k dflt = (case map_of d k of None \<Rightarrow> dflt | Some v \<Rightarrow> v)"

definition dict_contains :: "'v dict \<Rightarrow> string \<Rightarrow> bool" where
  "dict_contains d k = (map_of d k \<noteq> None)"

definition dict_getitem :: "'v dict \<Rightarrow> string \<Rightarrow> error + 'v" where
  "dict_getitem d k = (case map_of d k of None \<Rightarrow> Inl (KeyError k) | Some v \<Rightarrow> Inr v)"

definition dict_update :: "'v dict \<Rightarrow> 'v dict \<Rightarrow> 'v dict" where
  "dict_update d other = fold (\<lambda>(k, v) acc. AList.update k v acc) other d"

definition dict_keys :: "'v dict \<Rightarrow> string list" where
  "dict_keys d = map fst d"

section \<open>String helpers\<close>

text \<open>\<^verbatim>\<open>s.startswith(p)\<close> and the substring test \<^verbatim>\<open>p in s\<close>.\<close>

fun startswith :: "string \<Rightarrow> string \<Rightarrow> bool" where
  "startswith s [] = True"
| "startswith [] (p # ps) = False"
| "startswith (c # cs) (p # ps) = (c = p \<and> startswith cs ps)"

fun str_in :: "string \<Rightarrow> string \<Rightarrow> bool" where
  "str_in p [] = (p = [])"
| "str_in p (c # cs) = (startswith (c # cs) p \<or> str_in p cs)"

text \<open>
  \<^verbatim>\<open>str.lower()\<close> on code points below 256: the ASCII capitals and the Latin-1 capitals
  (U+00C0 to U+00DE without the multiplication sign U+00D7) move up by 32.
\<close>

definition lower_char :: "char \<Rightarrow> char" where
  "lower_char c =
     (let n = (of_char c :: nat) in
      if (65 \<le> n \<and> n \<le> 90) \<or> (192 \<le> n \<and> n \<le> 222 \<and> n \<noteq> 215)
      then char_of (n + 32) else c)"

definition lower :: "string \<Rightarrow> string" where
  "lower s = map lower_char s"

section \<open>The feature helpers\<close>

text \<open>\<^verbatim>\<open>_calculate_frequency_score\<close>: 0.1 for each common pattern in the lower-cased URL.\<close>

definition common_patterns :: "string list" where
  "common_patterns = [''.com'', ''.org'', ''.net'', ''www.'', ''http'', ''https'']"

definition calculate_frequency_score :: "string \<Rightarrow> real" where
  "calculate_frequency_score url =
     min (fold (\<lambda>pattern score. if str_in pattern (lower url) then score + 0.1 else score)
            common_patterns 0.0)
         1.0"

text \<open>\<^verbatim>\<open>_count_suspicious_keywords\<close>: one count per keyword present in the lower-cased URL.\<close>

definition suspicious_keywords :: "string list" where
  "suspicious_keywords =
     [''admin'', ''root'', ''password'', ''passwd'', ''login'', ''cmd'', ''shell'',
      ''union'', ''select'', ''insert'', ''delete'', ''drop'', ''exec'', ''script'',
      ''alert'', ''prompt'', ''confirm'', ''javascript'', ''vbscript'',
      ''../'', [CHR ''.'', CHR ''.'', CHR 0x5C], ''/etc/'', ''/proc/'', ''/var/'',
      ''|'', ''&'', '';'', [CHR 0x60], ''$('']"

definition count_suspicious_keywords :: "string \<Rightarrow> int" where
  "count_suspicious_keywords url =
     (let url_lower = lower url in
      fold (\<lambda>keyword count. if str_in keyword url_lower then count + 1 else count)
        suspicious_keywords 0)"

text \<open>
  The regular expressions of \<^verbatim>\<open>extract_features\<close>. \<^verbatim>\<open>len(re.findall(cls, url))\<close> for a
  character class counts the characters of the class; below code point 256 the class
  \<^verbatim>\<open>\d\<close> holds the ASCII digits only.
\<close>

definition special_chars :: string where
  "special_chars =
     ''!@#$%^&*()_+-=[]{};'' @ [CHR 0x27] @ '':'' @ [CHR 0x22, CHR 0x5C] @ ''|,.<>/?''"

definition special_char_count :: "string \<Rightarrow> nat" where
  "special_char_count url = length (filter (\<lambda>c. c \<in> set special_chars) url)"

definition digit_count :: "string \<Rightarrow> nat" where
  "digit_count url = length (filter (\<lambda>c. c \<in> set ''0123456789'') url)"

definition is_hex :: "char \<Rightarrow> bool" where
  "is_hex c = (c \<in> set ''0123456789ABCDEFabcdef'')"

text \<open>
  \<^verbatim>\<open>len(re.findall(r'%[0-9A-Fa-f]{2}', url))\<close>: matches are found left to right and do not
  overlap, so a match consumes its three characters.
\<close>

fun encoded_chars_count :: "string \<Rightarrow> nat" where
  "encoded_chars_count (c # h1 # h2 # rest) =
     (if c = CHR ''%'' \<and> is_hex h1 \<and> is_hex h2
      then 1 + encoded_chars_count rest
      else encoded_chars_count (h1 # h2 # rest))"
| "encoded_chars_count _ = 0"

text \<open>\<^verbatim>\<open>s.split(sep)\<close> for a separator of one character.\<close>

fun split_char :: "char \<Rightarrow> string \<Rightarrow> string list" where
  "split_char sep [] = [[]]"
| "split_char sep (c # cs) =
     (if c = sep then [] # split_char sep cs
      else (case split_char sep cs of
              [] \<Rightarrow> [[c]]
            | p # ps \<Rightarrow> (c # p) # ps))"

text \<open>
  Name resolution. \<^verbatim>\<open>math\<close> is imported inside the body of \<^verbatim>\<open>extract_features\<close>, which
  binds it as a local variable of that function only. \<^verbatim>\<open>_calculate_entropy\<close> is another
  function: there \<^verbatim>\<open>math\<close> is looked up among the names bound at module level (lines 7 to
  13 of the script, and the class and the function it defines) and the builtins, of which
  \<^verbatim>\<open>math\<close> is none.
\<close>

definition module_globals :: "string list" where
  "module_globals =
     [''joblib'', ''json'', ''np'', ''pd'', ''Dict'', ''List'', ''Tuple'', ''Optional'',
      ''os'', ''datetime'', ''CyberAttackPredictor'', ''main'']"

definition load_global :: "string \<Rightarrow> error + unit" where
  "load_global name = (if name \<in> set module_globals then Inr () else Inl (NameError name))"

text \<open>\<^verbatim>\<open>math.log2(x)\<close> as written in \<^verbatim>\<open>_calculate_entropy\<close>: the name is resolved first.\<close>

definition math_log2 :: "real \<Rightarrow> error + real" where
  "math_log2 x =
     (case load_global ''math'' of
        Inl e \<Rightarrow> Inl e
      | Inr _ \<Rightarrow> if 0 < x then Inr (log 2 x) else Inl (ValueError ''math domain error''))"

text \<open>\<^verbatim>\<open>_calculate_entropy\<close>: the counting loop, then the loop over the counts.\<close>

definition count_chars :: "string \<Rightarrow> (char \<times> int) list" where
  "count_chars text =
     fold (\<lambda>char char_counts.
             AList.update char
               ((case map_of char_counts char of None \<Rightarrow> 0 | Some n \<Rightarrow> n) + 1) char_counts)
       text []"

fun entropy_loop :: "int list \<Rightarrow> int \<Rightarrow> real \<Rightarrow> error + real" where
  "entropy_loop [] text_length entropy = Inr entropy"
| "entropy_loop (count # counts) text_length entropy =
     (let probability = real_of_int count / real_of_int text_length in
      case math_log2 probability of
        Inl e \<Rightarrow> Inl e
      | Inr l \<Rightarrow> entropy_loop counts text_length (entropy - probability * l))"

definition calculate_entropy :: "string \<Rightarrow> error + real" where
  "calculate_entropy text =
     (if text = [] then Inr 0.0
      else
        let char_counts = count_chars text;
            entropy = 0.0;
            text_length = int (length text)
        in entropy_loop (map snd char_counts) text_length entropy)"

section \<open>Library functions and the loaded artefacts\<close>

text \<open>
  The functions of the standard library that the script calls and whose code is not part
  of it are parameters: \<^verbatim>\<open>urlparse\<close> (the three components the script reads),
  \<^verbatim>\<open>parse_qs\<close>, \<^verbatim>\<open>datetime.now()\<close> and \<^verbatim>\<open>isoformat\<close>. Time is an integer number of
  microseconds; \<open>now lib k\<close> is what the \<open>k\<close>-th call of \<^verbatim>\<open>datetime.now()\<close> returns, and
  every function that reads the clock takes and returns the number of calls made.
\<close>

record parse_result =
  pr_netloc :: string
  pr_path :: string
  pr_query :: string

record library =
  urlparse :: "string \<Rightarrow> error + parse_result"
  parse_qs :: "string \<Rightarrow> error + string list dict"
  now :: "nat \<Rightarrow> int"
  isoformat :: "int \<Rightarrow> string"

text \<open>
  The fields of \<^verbatim>\<open>self\<close> after \<^verbatim>\<open>load_models\<close>. The unpickled objects are given by the
  methods the script calls on them, applied to the one row it passes:
  \<^verbatim>\<open>model.predict(x)[0]\<close>, \<^verbatim>\<open>model.predict_proba(x)[0]\<close>, \<^verbatim>\<open>scaler.transform(x)\<close> and
  \<^verbatim>\<open>label_encoder.inverse_transform([i])[0]\<close>.
\<close>

record classifier =
  clf_predict :: "real list \<Rightarrow> error + int"
  clf_predict_proba :: "real list \<Rightarrow> error + real list"

record predictor =
  model_version :: string
  models :: "classifier dict"
  scaler :: "real list \<Rightarrow> error + real list"
  label_encoder :: "int \<Rightarrow> error + string"
  feature_columns :: "string list"
  attack_types :: "string list"

section \<open>Feature extraction\<close>

text \<open>The \<^verbatim>\<open>try\<close> block of \<^verbatim>\<open>extract_features\<close>.\<close>

definition extract_features_try ::
  "library \<Rightarrow> string \<Rightarrow> pyval dict option \<Rightarrow> error + pyval dict" where
  "extract_features_try lib url additional_features =
     (case urlparse lib url of
        Inl e \<Rightarrow> Inl e
      | Inr parsed \<Rightarrow>
     let domain = pr_netloc parsed;
         path = pr_path parsed;
         query = pr_query parsed
     in
     case parse_qs lib query of
        Inl e \<Rightarrow> Inl e
      | Inr params \<Rightarrow>
     let features =
        [(''url_length'', PInt (int (length url))),
         (''domain_length'', PInt (int (length domain))),
         (''path_length'', PInt (int (length path))),
         (''query_length'', PInt (int (length query))),
         (''special_char_count'', PInt (int (special_char_count url))),
         (''digit_count'', PInt (int (digit_count url))),
         (''path_depth'', PInt (int (length (filter (\<lambda>p. p \<noteq> []) (split_char CHR ''/'' path))))),
         (''subdomain_count'', PInt (max 0 (int (length (split_char CHR ''.'' domain)) - 2))),
         (''parameter_count'', PInt (int (length params))),
         (''encoded_chars_count'', PInt (int (encoded_chars_count url))),
         (''frequency_score'', PFloat (calculate_frequency_score url)),
         (''suspicious_keyword_count'', PInt (count_suspicious_keywords url))]
     in
     case calculate_entropy url of
        Inl e \<Rightarrow> Inl e
      | Inr entropy \<Rightarrow>
     let features = AList.update ''entropy'' (PFloat entropy) features;
         features =
           (case additional_features of
              None \<Rightarrow> features
            | Some extra \<Rightarrow> if extra = [] then features else dict_update features extra)
     in Inr features)"

text \<open>The handler's \<^verbatim>\<open>{col: 0 for col in self.feature_columns}\<close>.\<close>

definition default_features :: "predictor \<Rightarrow> pyval dict" where
  "default_features self = fold (\<lambda>col d. AList.update col (PInt 0) d) (feature_columns self) []"

definition extract_features ::
  "library \<Rightarrow> predictor \<Rightarrow> string \<Rightarrow> pyval dict option \<Rightarrow> pyval dict" where
  "extract_features lib self url additional_features =
     (case extract_features_try lib url additional_features of
        Inr features \<Rightarrow> features
      | Inl e \<Rightarrow> default_features self)"

section \<open>Prediction\<close>

text \<open>
  The loop of \<^verbatim>\<open>predict\<close> that builds \<^verbatim>\<open>feature_vector\<close>: one \<^verbatim>\<open>append\<close> of
  \<^verbatim>\<open>features.get(col, 0)\<close> per column.
\<close>

definition prepare_feature_vector :: "string list \<Rightarrow> pyval dict \<Rightarrow> pyval list" where
  "prepare_feature_vector cols features =
     fold (\<lambda>col feature_vector. feature_vector @ [dict_get features col (PInt 0)]) cols []"

text \<open>
  \<^verbatim>\<open>np.array(feature_vector).reshape(1, -1)\<close> as the row of numbers the scaler receives. The
  values \<^verbatim>\<open>extract_features\<close> computes are numbers; another value (possible only through
  \<^verbatim>\<open>additional_features\<close>, which \<^verbatim>\<open>predict\<close> does not pass) is an error here.
\<close>

fun py_float :: "pyval \<Rightarrow> error + real" where
  "py_float (PInt i) = Inr (real_of_int i)"
| "py_float (PFloat x) = Inr x"
| "py_float (PStr s) = Inl (ValueError ''could not convert string to float'')"
| "py_float (PDict d) = Inl (ValueError ''could not convert dict to float'')"

fun np_array :: "pyval list \<Rightarrow> error + real list" where
  "np_array [] = Inr []"
| "np_array (v # vs) =
     (case py_float v of
        Inl e \<Rightarrow> Inl e
      | Inr x \<Rightarrow> (case np_array vs of Inl e \<Rightarrow> Inl e | Inr xs \<Rightarrow> Inr (x # xs)))"

text \<open>\<^verbatim>\<open>np.max\<close> raises on an empty array.\<close>

definition np_max :: "real list \<Rightarrow> error + real" where
  "np_max xs =
     (case xs of
        [] \<Rightarrow> Inl (ValueError ''zero-size array to reduction operation maximum'')
      | x # rest \<Rightarrow> Inr (fold max rest x))"

text \<open>The loop over \<^verbatim>\<open>enumerate(probabilities)\<close> that fills \<^verbatim>\<open>all_probabilities\<close>.\<close>

fun all_probabilities_loop ::
  "predictor \<Rightarrow> real list \<Rightarrow> int \<Rightarrow> pyval dict \<Rightarrow> error + pyval dict" where
  "all_probabilities_loop self [] i all_probabilities = Inr all_probabilities"
| "all_probabilities_loop self (prob # probs) i all_probabilities =
     (case label_encoder self i of
        Inl e \<Rightarrow> Inl e
      | Inr attack_name \<Rightarrow>
          all_probabilities_loop self probs (i + 1)
            (AList.update attack_name (PFloat prob) all_probabilities))"

section \<open>The risk policy\<close>

text \<open>\<^verbatim>\<open>_determine_risk_level\<close>.\<close>

definition high_risk_attacks :: "string list" where
  "high_risk_attacks = [''sqli'', ''xss'', ''command_injection'', ''web_shell'', ''xxe'']"

definition determine_risk_level :: "string \<Rightarrow> real \<Rightarrow> string" where
  "determine_risk_level attack_type confidence =
     (if attack_type = ''benign'' then ''low''
      else if attack_type \<in> set high_risk_attacks then
        (if confidence \<ge> 0.9 then ''critical''
         else if confidence \<ge> 0.7 then ''high''
         else ''medium'')
      else
        (if confidence \<ge> 0.9 then ''high''
         else if confidence \<ge> 0.7 then ''medium''
         else ''low''))"

text \<open>
  The \<^verbatim>\<open>try\<close> block of \<^verbatim>\<open>predict\<close>. \<open>k\<close> is the number of clock reads made before the
  call; the block reads the clock at its start and, when nothing has raised, twice more.
\<close>

definition predict_try ::
  "library \<Rightarrow> predictor \<Rightarrow> nat \<Rightarrow> string \<Rightarrow> string \<Rightarrow> error + pyval dict" where
  "predict_try lib self k url model_type =
     (let start_time = now lib k;
          features = extract_features lib self url None;
          feature_vector = prepare_feature_vector (feature_columns self) features
      in
      case np_array feature_vector of
        Inl e \<Rightarrow> Inl e
      | Inr feature_vector \<Rightarrow>
      case scaler self feature_vector of
        Inl e \<Rightarrow> Inl e
      | Inr feature_vector_scaled \<Rightarrow>
      let model_type =
            (if \<not> dict_contains (models self) model_type then ''ensemble'' else model_type)
      in
      case dict_getitem (models self) model_type of
        Inl e \<Rightarrow> Inl e
      | Inr model \<Rightarrow>
      case clf_predict model feature_vector_scaled of
        Inl e \<Rightarrow> Inl e
      | Inr prediction \<Rightarrow>
      case clf_predict_proba model feature_vector_scaled of
        Inl e \<Rightarrow> Inl e
      | Inr probabilities \<Rightarrow>
      case label_encoder self prediction of
        Inl e \<Rightarrow> Inl e
      | Inr attack_type \<Rightarrow>
      case np_max probabilities of
        Inl e \<Rightarrow> Inl e
      | Inr confidence \<Rightarrow>
      case all_probabilities_loop self probabilities 0 [] of
        Inl e \<Rightarrow> Inl e
      | Inr all_probabilities \<Rightarrow>
      let risk_level = determine_risk_level attack_type confidence;
          processing_time = real_of_int (now lib (k + 1) - start_time) / 1000
      in
      Inr [(''url'', PStr url),
           (''predicted_attack_type'', PStr attack_type),
           (''confidence'', PFloat confidence),
           (''risk_level'', PStr risk_level),
           (''all_probabilities'', PDict all_probabilities),
           (''features'', PDict features),
           (''model_used'', PStr model_type),
           (''model_version'', PStr (model_version self)),
           (''processing_time_ms'', PFloat processing_time),
           (''timestamp'', PStr (isoformat lib (now lib (k + 2))))])"

text \<open>
  \<^verbatim>\<open>predict\<close>: the result of the block, or the handler's dictionary. The second component
  is the number of clock reads after the call.
\<close>

definition predict ::
  "library \<Rightarrow> predictor \<Rightarrow> nat \<Rightarrow> string \<Rightarrow> string \<Rightarrow> pyval dict \<times> nat" where
  "predict lib self k url model_type =
     (case predict_try lib self k url model_type of
        Inr result \<Rightarrow> (result, k + 3)
      | Inl e \<Rightarrow>
          ([(''url'', PStr url),
            (''error'', PStr (error_str e)),
            (''timestamp'', PStr (isoformat lib (now lib (k + 1))))],
           k + 2))"

text \<open>\<^verbatim>\<open>batch_predict\<close>: the loop appends one result per URL.\<close>

fun batch_predict_loop ::
  "library \<Rightarrow> predictor \<Rightarrow> string \<Rightarrow> string list \<Rightarrow> pyval dict list \<Rightarrow> nat
     \<Rightarrow> pyval dict list \<times> nat" where
  "batch_predict_loop lib self model_type [] results k = (results, k)"
| "batch_predict_loop lib self model_type (url # urls) results k =
     (case predict lib self k url model_type of
        (result, k') \<Rightarrow> batch_predict_loop lib self model_type urls (results @ [result]) k')"

definition batch_predict ::
  "library \<Rightarrow> predictor \<Rightarrow> nat \<Rightarrow> string list \<Rightarrow> string \<Rightarrow> pyval dict list \<times> nat" where
  "batch_predict lib self k urls model_type = batch_predict_loop lib self model_type urls [] k"

text \<open>The keys of the two kinds of result, and a result without the fields read off the clock.\<close>

definition success_keys :: "string list" where
  "success_keys =
     [''url'', ''predicted_attack_type'', ''confidence'', ''risk_level'', ''all_probabilities'',
      ''features'', ''model_used'', ''model_version'', ''processing_time_ms'', ''timestamp'']"

definition error_keys :: "string list" where
  "error_keys = [''url'', ''error'', ''timestamp'']"

definition untimed :: "pyval dict \<Rightarrow> pyval dict" where
  "untimed result = filter (\<lambda>kv. fst kv \<noteq> ''timestamp'' \<and> fst kv \<noteq> ''processing_time_ms'') result"

text \<open>
  The dictionary the handler of \<^verbatim>\<open>predict\<close> returns for the exception \<open>e\<close>, its
  timestamp taken at clock read \<open>k\<close>.
\<close>

definition error_result :: "library \<Rightarrow> nat \<Rightarrow> string \<Rightarrow> error \<Rightarrow> pyval dict" where
  "error_result lib k url e =
     [(''url'', PStr url),
      (''error'', PStr (error_str e)),
      (''timestamp'', PStr (isoformat lib (now lib k)))]"

section \<open>The ensemble\<close>

text \<open>
  Modelled from the spec: the classifier stored under \<^verbatim>\<open>'ensemble'\<close> is built by
  \<^verbatim>\<open>create_ensemble\<close> of \<^verbatim>\<open>scripts/ml_training.py\<close> as
  \<^verbatim>\<open>VotingClassifier(estimators=[('rf', ...), ('xgb', ...)], voting='soft')\<close>; the class is
  scikit-learn's and its code is not in the repository. Following the specification, the
  distribution is the mean, per class, of the members' distributions with equal weights,
  and the predicted class is the first index where the mean is largest. The members are
  taken as the classifiers given to the constructor.
\<close>

fun collect_probas :: "classifier list \<Rightarrow> real list \<Rightarrow> error + real list list" where
  "collect_probas [] x = Inr []"
| "collect_probas (m # ms) x =
     (case clf_predict_proba m x of
        Inl e \<Rightarrow> Inl e
      | Inr p \<Rightarrow> (case collect_probas ms x of Inl e \<Rightarrow> Inl e | Inr ps \<Rightarrow> Inr (p # ps)))"

definition average_probas :: "real list list \<Rightarrow> error + real list" where
  "average_probas ps =
     (case ps of
        [] \<Rightarrow> Inl (ValueError ''no estimators'')
      | p # rest \<Rightarrow>
          if list_all (\<lambda>q. length q = length p) rest
          then Inr (map (\<lambda>j. sum_list (map (\<lambda>q. q ! j) ps) / real (length ps)) [0..<length p])
          else Inl (ValueError ''shape mismatch''))"

fun argmax_loop :: "real list \<Rightarrow> nat \<Rightarrow> nat \<Rightarrow> real \<Rightarrow> nat" where
  "argmax_loop [] i best best_val = best"
| "argmax_loop (x # xs) i best best_val =
     (if best_val < x then argmax_loop xs (i + 1) i x
      else argmax_loop xs (i + 1) best best_val)"

definition argmax :: "real list \<Rightarrow> error + nat" where
  "argmax xs =
     (case xs of
        [] \<Rightarrow> Inl (ValueError ''attempt to get argmax of an empty sequence'')
      | x # rest \<Rightarrow> Inr (argmax_loop rest 1 0 x))"

definition voting_predict_proba :: "classifier list \<Rightarrow> real list \<Rightarrow> error + real list" where
  "voting_predict_proba members x =
     (case collect_probas members x of
        Inl e \<Rightarrow> Inl e
      | Inr ps \<Rightarrow> average_probas ps)"

definition voting_predict :: "classifier list \<Rightarrow> real list \<Rightarrow> error + int" where
  "voting_predict members x =
     (case voting_predict_proba members x of
        Inl e \<Rightarrow> Inl e
      | Inr avg \<Rightarrow> (case argmax avg of Inl e \<Rightarrow> Inl e | Inr i \<Rightarrow> Inr (int i)))"

definition voting_classifier :: "classifier list \<Rightarrow> classifier" where
  "voting_classifier members =
     \<lparr>clf_predict = voting_predict members, clf_predict_proba = voting_predict_proba members\<rparr>"

text \<open>\<^verbatim>\<open>create_ensemble\<close>: the two trained models are read from \<^verbatim>\<open>self.models\<close>.\<close>

definition create_ensemble :: "classifier dict \<Rightarrow> error + classifier dict" where
  "create_ensemble ms =
     (case dict_getitem ms ''random_forest'' of
        Inl e \<Rightarrow> Inl e
      | Inr rf \<Rightarrow>
     case dict_getitem ms ''xgboost'' of
        Inl e \<Rightarrow> Inl e
      | Inr xgb \<Rightarrow> Inr (AList.update ''ensemble'' (voting_classifier [rf, xgb]) ms))"

section \<open>A small bundle for concrete runs\<close>

text \<open>
  A library and a loaded predictor on which the functions above can be evaluated: a URL
  parser that splits at the first question mark and rejects an unclosed bracket, a clock
  that advances by one millisecond per read, two constant classifiers and their ensemble.
\<close>

definition sample_library :: library where
  "sample_library =
     \<lparr>urlparse = (\<lambda>url.
        if CHR ''['' \<in> set url \<and> CHR '']'' \<notin> set url then Inl (ValueError ''Invalid IPv6 URL'')
        else Inr \<lparr>pr_netloc = [],
                  pr_path = takeWhile (\<lambda>c. c \<noteq> CHR ''?'') url,
                  pr_query = drop 1 (dropWhile (\<lambda>c. c \<noteq> CHR ''?'') url)\<rparr>),
      parse_qs = (\<lambda>query. Inr []),
      now = (\<lambda>k. 1000 * int k),
      isoformat = (\<lambda>t. if t < 5000 then ''early'' else ''late'')\<rparr>"

definition sample_rf :: classifier where
  "sample_rf = \<lparr>clf_predict = (\<lambda>x. Inr 1), clf_predict_proba = (\<lambda>x. Inr [0.2, 0.8])\<rparr>"

definition sample_xgb :: classifier where
  "sample_xgb = \<lparr>clf_predict = (\<lambda>x. Inr 0), clf_predict_proba = (\<lambda>x. Inr [0.6, 0.4])\<rparr>"

definition sample_predictor :: predictor where
  "sample_predictor =
     \<lparr>model_version = ''1.0.0'',
      models = [(''random_forest'', sample_rf), (''xgboost'', sample_xgb),
                (''ensemble'', voting_classifier [sample_rf, sample_xgb])],
      scaler = (\<lambda>xs. if length xs = 2 then Inr (map (\<lambda>x. (x - 1) / 2) xs)
                      else Inl (ValueError ''X has a wrong number of features'')),
      label_encoder = (\<lambda>i. if i = 0 then Inr ''benign'' else if i = 1 then Inr ''xss''
                      else Inl (ValueError ''y contains previously unseen labels'')),
      feature_columns = [''url_length'', ''entropy''],
      attack_types = [''benign'', ''xss'']\<rparr>"

text \<open>
  A second bundle, in which the assembled vector is not all zeros: a parser that resolves
  every URL against the host \<^verbatim>\<open>localhost\<close>, so that the empty URL has a host of nine
  characters, a classifier that accepts one scaled vector only, and a predictor that reads the
  columns \<^verbatim>\<open>domain_length\<close> and \<^verbatim>\<open>entropy\<close>.
\<close>

definition sample_host_library :: library where
  "sample_host_library =
     sample_library\<lparr>urlparse :=
       (\<lambda>url. Inr \<lparr>pr_netloc = ''localhost'', pr_path = url, pr_query = []\<rparr>)\<rparr>"

definition sample_probe :: classifier where
  "sample_probe =
     \<lparr>clf_predict = (\<lambda>x. if x = [4, - 1 / 2] then Inr 1
                          else Inl (ValueError ''unexpected input'')),
      clf_predict_proba = (\<lambda>x. Inr [0.1, 0.9])\<rparr>"

definition sample_host_predictor :: predictor where
  "sample_host_predictor =
     sample_predictor\<lparr>models := [(''ensemble'', sample_probe)],
                      feature_columns := [''domain_length'', ''entropy'']\<rparr>"

section \<open>Properties of the risk policy\<close>

text \<open>
  C3. The risk classifier is a total function of the attack type and the confidence that
  implements the policy table: \<open>benign\<close> is always low; the five high-risk attack types
  are critical from 0.9, high from 0.7 and medium below; every other attack type is high
  from 0.9, medium from 0.7 and low below. The six sample values of the specification
  follow.
\<close>

theorem risk_level_policy_table:
  "determine_risk_level ''benign'' c = ''low'' \<and>
   (a \<in> {''sqli'', ''xss'', ''command_injection'', ''web_shell'', ''xxe''} \<longrightarrow>
      (0.9 \<le> c \<longrightarrow> determine_risk_level a c = ''critical'') \<and>
      (0.7 \<le> c \<and> c < 0.9 \<longrightarrow> determine_risk_level a c = ''high'') \<and>
      (c < 0.7 \<longrightarrow> determine_risk_level a c = ''medium'')) \<and>
   (a \<noteq> ''benign'' \<and> a \<notin> {''sqli'', ''xss'', ''command_injection'', ''web_shell'', ''xxe''} \<longrightarrow>
      (0.9 \<le> c \<longrightarrow> determine_risk_level a c = ''high'') \<and>
      (0.7 \<le> c \<and> c < 0.9 \<longrightarrow> determine_risk_level a c = ''medium'') \<and>
      (c < 0.7 \<longrightarrow> determine_risk_level a c = ''low'')) \<and>
   determine_risk_level ''benign'' 0.99 = ''low'' \<and>
   determine_risk_level ''sqli'' 0.95 = ''critical'' \<and>
   determine_risk_level ''sqli'' 0.75 = ''high'' \<and>
   determine_risk_level ''sqli'' 0.5 = ''medium'' \<and>
   determine_risk_level ''typosquatting'' 0.95 = ''high'' \<and>
   determine_risk_level ''typosquatting'' 0.5 = ''low''"
  by (auto simp: determine_risk_level_def high_risk_attacks_def)

theorem risk_level_policy_table_witness:
  "determine_risk_level ''xss'' 0.92 = ''critical'' \<and>
   determine_risk_level ''web_shell'' 0.8 = ''high'' \<and>
   determine_risk_level ''xxe'' 0.3 = ''medium'' \<and>
   determine_risk_level ''ssrf'' 0.9 = ''high'' \<and>
   determine_risk_level ''brute_force'' 0.7 = ''medium'' \<and>
   determine_risk_level ''directory_traversal'' 0.69 = ''low''"
  using risk_level_policy_table [of "0.92" "''xss''"]
    risk_level_policy_table [of "0.8" "''web_shell''"]
    risk_level_policy_table [of "0.3" "''xxe''"]
    risk_level_policy_table [of "0.9" "''ssrf''"]
    risk_level_policy_table [of "0.7" "''brute_force''"]
    risk_level_policy_table [of "0.69" "''directory_traversal''"]
  by simp

section \<open>Properties of the frequency score\<close>

lemma fold_score:
  "fold (\<lambda>p s. if P p then s + d else s) ps (s0::real) = s0 + d * real (length (filter P ps))"
  by (induction ps arbitrary: s0) (simp_all add: algebra_simps)

lemma frequency_score_eq:
  "calculate_frequency_score url =
     0.1 * real (length (filter (\<lambda>p. str_in p (lower url)) common_patterns))"
proof -
  let ?n = "length (filter (\<lambda>p. str_in p (lower url)) common_patterns)"
  have "?n \<le> length common_patterns" by (rule length_filter_le)
  then have "?n \<le> 6" by (simp add: common_patterns_def)
  then have "0.1 * real ?n \<le> 1" by simp
  then show ?thesis
    unfolding calculate_frequency_score_def fold_score by simp
qed

text \<open>
  C8 (as amended). The frequency score is 0.1 times the number of the six patterns
  \<open>.com\<close>, \<open>.org\<close>, \<open>.net\<close>, \<open>www.\<close>, \<open>http\<close>, \<open>https\<close> that occur in the lower-cased
  URL. It lies between 0 and 0.6, so the \<^verbatim>\<open>min(score, 1.0)\<close> never changes it: a URL with
  none of the patterns scores 0 and a URL with all six scores 0.6.
\<close>

theorem frequency_score_counts_patterns:
  "calculate_frequency_score url =
     0.1 * real (length (filter (\<lambda>p. str_in p (lower url)) common_patterns)) \<and>
   0 \<le> calculate_frequency_score url \<and> calculate_frequency_score url \<le> 0.6 \<and>
   (list_all (\<lambda>p. \<not> str_in p (lower url)) common_patterns \<longrightarrow>
      calculate_frequency_score url = 0) \<and>
   (list_all (\<lambda>p. str_in p (lower url)) common_patterns \<longrightarrow>
      calculate_frequency_score url = 0.6)"
proof -
  let ?P = "\<lambda>p. str_in p (lower url)"
  let ?n = "length (filter ?P common_patterns)"
  have le: "?n \<le> 6"
    using length_filter_le [of ?P common_patterns] by (simp add: common_patterns_def)
  have none: "list_all (\<lambda>p. \<not> ?P p) common_patterns \<Longrightarrow> ?n = 0"
    by (simp add: list_all_iff filter_empty_conv)
  have all: "list_all ?P common_patterns \<Longrightarrow> ?n = 6"
  proof -
    assume "list_all ?P common_patterns"
    then have "filter ?P common_patterns = common_patterns"
      by (simp add: list_all_iff)
    then show "?n = 6" by (simp add: common_patterns_def)
  qed
  show ?thesis
    unfolding frequency_score_eq using le none all by auto
qed

theorem frequency_score_counts_patterns_witness:
  "calculate_frequency_score ''HTTPS://WWW.A.COM.ORG.NET'' = 0.6 \<and>
   calculate_frequency_score ''ftp://example.io/x'' = 0"
proof -
  have a: "list_all (\<lambda>p. str_in p (lower ''HTTPS://WWW.A.COM.ORG.NET'')) common_patterns"
    by code_simp
  have b: "list_all (\<lambda>p. \<not> str_in p (lower ''ftp://example.io/x'')) common_patterns"
    by code_simp
  show ?thesis
    using frequency_score_counts_patterns [of "''HTTPS://WWW.A.COM.ORG.NET''"]
      frequency_score_counts_patterns [of "''ftp://example.io/x''"] a b
    by blast
qed

text \<open>
  C8 as stated fails: a URL in which all six patterns occur scores 0.6, not 1.0.
\<close>

theorem frequency_score_all_six_counterexample:
  "list_all (\<lambda>p. str_in p (lower ''HTTPS://WWW.A.COM.ORG.NET'')) common_patterns \<and>
   calculate_frequency_score ''HTTPS://WWW.A.COM.ORG.NET'' = 0.6 \<and>
   calculate_frequency_score ''HTTPS://WWW.A.COM.ORG.NET'' \<noteq> 1.0"
  by code_simp

section \<open>Properties of feature extraction\<close>

lemma math_log2_raises: "math_log2 x = Inl (NameError ''math'')"
  by (simp add: math_log2_def load_global_def module_globals_def)

lemma entropy_loop_raises:
  "counts \<noteq> [] \<Longrightarrow> entropy_loop counts n acc = Inl (NameError ''math'')"
  by (cases counts) (simp_all add: math_log2_raises)

lemma fold_update_nonempty:
  "acc \<noteq> [] \<or> s \<noteq> [] \<Longrightarrow> fold (\<lambda>c cc. AList.update c (g cc c) cc) s acc \<noteq> []"
  by (induction s arbitrary: acc) auto

lemma count_chars_nonempty: "s \<noteq> [] \<Longrightarrow> count_chars s \<noteq> []"
  unfolding count_chars_def
  using fold_update_nonempty [of "[]" s "\<lambda>cc c. (case map_of cc c of None \<Rightarrow> 0 | Some n \<Rightarrow> n) + 1"]
  by simp

lemma calculate_entropy_nonempty:
  "s \<noteq> [] \<Longrightarrow> calculate_entropy s = Inl (NameError ''math'')"
  by (simp add: calculate_entropy_def Let_def entropy_loop_raises count_chars_nonempty)

lemma calculate_entropy_empty: "calculate_entropy [] = Inr 0"
  by (simp add: calculate_entropy_def)

text \<open>
  C7. The entropy helper is meant to return the Shannon entropy of its argument, which is
  one bit for \<open>ab\<close>. It returns 0.0 for the empty string only: on \<open>ab\<close> the first
  iteration of the loop over the counts raises \<^verbatim>\<open>NameError\<close>, as \<^verbatim>\<open>math\<close> is not bound in
  the helper.
\<close>

theorem entropy_raises_on_two_characters:
  "calculate_entropy ''ab'' = Inl (NameError ''math'')"
  by (simp add: calculate_entropy_nonempty)

lemma map_of_fold_update:
  "map_of (fold (\<lambda>col d. AList.update col v d) cols d0) k =
     (if k \<in> set cols then Some v else map_of d0 k)"
  by (induction cols arbitrary: d0) (auto simp: update_conv')


lemma distinct_fold_update:
  "distinct (map fst d0) \<Longrightarrow> distinct (map fst (fold (\<lambda>col d. AList.update col v d) cols d0))"
  by (induction cols arbitrary: d0) (auto simp: distinct_update)

lemma default_features_lookup:
  "map_of (default_features self) k = (if k \<in> set (feature_columns self) then Some (PInt 0) else None)"
  by (simp add: default_features_def map_of_fold_update)


lemma default_features_distinct: "distinct (dict_keys (default_features self))"
  by (simp add: default_features_def dict_keys_def distinct_fold_update)

lemma default_features_values:
  assumes "(k, v) \<in> set (default_features self)"
  shows "v = PInt 0"
proof -
  have "map_of (default_features self) k = Some v"
    using assms default_features_distinct [of self] by (simp add: dict_keys_def)
  then show ?thesis by (simp add: default_features_lookup split: if_splits)
qed

lemma extract_features_try_nonempty:
  "url \<noteq> [] \<Longrightarrow> \<exists>e. extract_features_try lib url extra = Inl e"
  by (simp add: extract_features_try_def Let_def calculate_entropy_nonempty split: sum.splits)

lemma counts_empty: "special_char_count [] = 0" "digit_count [] = 0"
  by (simp_all add: special_char_count_def digit_count_def)

lemma frequency_score_empty: "calculate_frequency_score [] = 0"
  by code_simp

lemma count_suspicious_keywords_empty: "count_suspicious_keywords [] = 0"
  by code_simp






section \<open>Properties of prediction\<close>


lemma fold_append_map: "fold (\<lambda>col fv. fv @ [f col]) cols acc = acc @ map f cols"
  by (induction cols arbitrary: acc) simp_all

lemma prepare_feature_vector_map:
  "prepare_feature_vector cols features = map (\<lambda>col. dict_get features col (PInt 0)) cols"
  by (simp add: prepare_feature_vector_def fold_append_map)

lemma np_array_nth:
  "np_array vs = Inr xs \<Longrightarrow>
     length xs = length vs \<and> (\<forall>i<length vs. py_float (vs ! i) = Inr (xs ! i))"
proof (induction vs arbitrary: xs)
  case Nil
  then show ?case by simp
next
  case (Cons v vs)
  from Cons.prems obtain x ys where
    v: "py_float v = Inr x" and ys: "np_array vs = Inr ys" and xs: "xs = x # ys"
    by (auto split: sum.splits)
  from Cons.IH [OF ys] v xs show ?case
    by (auto simp: nth_Cons split: nat.splits)
qed

lemma np_array_total:
  "(\<forall>v\<in>set vs. \<exists>x. py_float v = Inr x) \<Longrightarrow> \<exists>xs. np_array vs = Inr xs"
  by (induction vs) auto

lemma extract_features_numeric:
  assumes "(c, v) \<in> set (extract_features lib self url None)"
  shows "\<exists>x. py_float v = Inr x"
proof (cases "extract_features_try lib url None")
  case (Inl e)
  with assms have "(c, v) \<in> set (default_features self)"
    by (simp add: extract_features_def)
  then have "v = PInt 0" by (rule default_features_values)
  then show ?thesis by simp
next
  case (Inr features)
  then have "url = []"
    using extract_features_try_nonempty [of url lib None] by auto
  with Inr assms show ?thesis
    by (auto simp: extract_features_def extract_features_try_def calculate_entropy_empty Let_def
        split: sum.splits)
qed

lemma dict_get_numeric:
  assumes "\<And>c v. (c, v) \<in> set d \<Longrightarrow> \<exists>x. py_float v = Inr x"
  shows "\<exists>x. py_float (dict_get d col (PInt 0)) = Inr x"
proof (cases "map_of d col")
  case None
  then show ?thesis by (simp add: dict_get_def)
next
  case (Some v)
  then have "(col, v) \<in> set d" by (rule map_of_SomeD)
  with assms Some show ?thesis by (simp add: dict_get_def)
qed

lemma feature_vector_converts:
  "\<exists>xs. np_array (prepare_feature_vector cols (extract_features lib self url None)) = Inr xs"
proof (rule np_array_total, rule ballI)
  fix v assume "v \<in> set (prepare_feature_vector cols (extract_features lib self url None))"
  then obtain col where "v = dict_get (extract_features lib self url None) col (PInt 0)"
    by (auto simp: prepare_feature_vector_map)
  then show "\<exists>x. py_float v = Inr x"
    using dict_get_numeric [of "extract_features lib self url None" col]
      extract_features_numeric [of _ _ lib self url]
    by blast
qed

lemma all_probabilities_loop_scaler:
  "all_probabilities_loop (self\<lparr>scaler := sc\<rparr>) probs i acc = all_probabilities_loop self probs i acc"
  by (induction probs arbitrary: i acc) (simp_all split: sum.splits)

lemma extract_features_scaler:
  "extract_features lib (self\<lparr>scaler := sc\<rparr>) url extra = extract_features lib self url extra"
  by (simp add: extract_features_def default_features_def split: sum.splits)

lemma predict_try_scaler:
  assumes "np_array (prepare_feature_vector (feature_columns self)
             (extract_features lib self url None)) = Inr xs"
    and "sc xs = scaler self xs"
  shows "predict_try lib (self\<lparr>scaler := sc\<rparr>) k url m = predict_try lib self k url m"
  using assms
  by (simp add: predict_try_def Let_def extract_features_scaler all_probabilities_loop_scaler
      cong: sum.case_cong)

lemma predict_raises:
  "predict_try lib self k url m = Inl e \<Longrightarrow>
   predict lib self k url m =
     ([(''url'', PStr url), (''error'', PStr (error_str e)),
       (''timestamp'', PStr (isoformat lib (now lib (k + 1))))], k + 2)"
  by (simp add: predict_def)

lemma predict_returns:
  "predict_try lib self k url m = Inr res \<Longrightarrow> predict lib self k url m = (res, k + 3)"
  by (simp add: predict_def)

lemma predict_try_scaler_raises:
  assumes "np_array (prepare_feature_vector (feature_columns self)
             (extract_features lib self url None)) = Inr xs"
    and "scaler self xs = Inl e"
  shows "predict_try lib self k url m = Inl e"
  using assms by (simp add: predict_try_def)

lemma predict_try_model_raises:
  assumes "np_array (prepare_feature_vector (feature_columns self)
             (extract_features lib self url None)) = Inr xs"
    and "scaler self xs = Inr scaled"
    and "dict_getitem (models self)
           (if \<not> dict_contains (models self) m then ''ensemble'' else m) = Inr model"
    and "clf_predict model scaled = Inl e"
  shows "predict_try lib self k url m = Inl e"
  using assms by (simp add: predict_try_def Let_def)

lemma predict_try_succeeds:
  assumes "np_array (prepare_feature_vector (feature_columns self)
             (extract_features lib self url None)) = Inr xs"
    and "scaler self xs = Inr scaled"
    and "dict_getitem (models self)
           (if \<not> dict_contains (models self) m then ''ensemble'' else m) = Inr model"
    and "clf_predict model scaled = Inr prediction"
    and "clf_predict_proba model scaled = Inr probabilities"
    and "label_encoder self prediction = Inr attack_type"
    and "np_max probabilities = Inr confidence"
    and "all_probabilities_loop self probabilities 0 [] = Inr all_probabilities"
  shows "predict_try lib self k url m =
     Inr [(''url'', PStr url),
          (''predicted_attack_type'', PStr attack_type),
          (''confidence'', PFloat confidence),
          (''risk_level'', PStr (determine_risk_level attack_type confidence)),
          (''all_probabilities'', PDict all_probabilities),
          (''features'', PDict (extract_features lib self url None)),
          (''model_used'', PStr (if \<not> dict_contains (models self) m then ''ensemble'' else m)),
          (''model_version'', PStr (model_version self)),
          (''processing_time_ms'', PFloat (real_of_int (now lib (k + 1) - now lib k) / 1000)),
          (''timestamp'', PStr (isoformat lib (now lib (k + 2))))]"
  using assms by (simp add: predict_try_def Let_def)

text \<open>
  C1. \<^verbatim>\<open>predict\<close> builds its feature vector by walking \<^verbatim>\<open>self.feature_columns\<close> in order:
  the vector has one entry per column, entry \<open>i\<close> is the extracted value of column \<open>i\<close>, or
  \<open>0\<close> when the extracted features have no such key. The vector of a prediction always converts
  to an array \<open>xs\<close> of the same length and order, and the result of \<^verbatim>\<open>predict\<close> is determined
  by the scaler applied to \<open>xs\<close>: when the scaler raises on \<open>xs\<close>, \<^verbatim>\<open>predict\<close> returns the
  error result carrying that exception; when it returns \<open>scaled\<close>, the selected model is run on
  \<open>scaled\<close>, and \<^verbatim>\<open>predict\<close> returns the error result of the model's exception or the
  prediction result built from the model's answers on \<open>scaled\<close>. The value of the scaler
  anywhere else does not matter.
\<close>

theorem predict_feature_vector_follows_columns:
  "length (prepare_feature_vector (feature_columns self) features) = length (feature_columns self) \<and>
   (\<forall>i < length (feature_columns self).
      prepare_feature_vector (feature_columns self) features ! i =
        (case map_of features (feature_columns self ! i) of None \<Rightarrow> PInt 0 | Some v \<Rightarrow> v)) \<and>
   (\<exists>ys. np_array (prepare_feature_vector (feature_columns self)
            (extract_features lib self url None)) = Inr ys) \<and>
   (np_array (prepare_feature_vector (feature_columns self)
      (extract_features lib self url None)) = Inr xs \<longrightarrow>
      length xs = length (feature_columns self) \<and>
      (\<forall>i < length (feature_columns self).
         py_float (case map_of (extract_features lib self url None) (feature_columns self ! i) of
                     None \<Rightarrow> PInt 0 | Some v \<Rightarrow> v) = Inr (xs ! i)) \<and>
      (\<forall>e. scaler self xs = Inl e \<longrightarrow>
         predict_try lib self k url m = Inl e \<and>
         predict lib self k url m =
           ([(''url'', PStr url), (''error'', PStr (error_str e)),
             (''timestamp'', PStr (isoformat lib (now lib (k + 1))))], k + 2)) \<and>
      (scaler self xs = Inr scaled \<and>
       dict_getitem (models self)
         (if \<not> dict_contains (models self) m then ''ensemble'' else m) = Inr model \<longrightarrow>
         (\<forall>e. clf_predict model scaled = Inl e \<longrightarrow>
            predict_try lib self k url m = Inl e \<and>
            predict lib self k url m =
              ([(''url'', PStr url), (''error'', PStr (error_str e)),
                (''timestamp'', PStr (isoformat lib (now lib (k + 1))))], k + 2)) \<and>
         (clf_predict model scaled = Inr prediction \<and>
          clf_predict_proba model scaled = Inr probabilities \<and>
          label_encoder self prediction = Inr attack_type \<and>
          np_max probabilities = Inr confidence \<and>
          all_probabilities_loop self probabilities 0 [] = Inr all_probabilities \<longrightarrow>
            predict lib self k url m =
              ([(''url'', PStr url),
                (''predicted_attack_type'', PStr attack_type),
                (''confidence'', PFloat confidence),
                (''risk_level'', PStr (determine_risk_level attack_type confidence)),
                (''all_probabilities'', PDict all_probabilities),
                (''features'', PDict (extract_features lib self url None)),
                (''model_used'',
                   PStr (if \<not> dict_contains (models self) m then ''ensemble'' else m)),
                (''model_version'', PStr (model_version self)),
                (''processing_time_ms'',
                   PFloat (real_of_int (now lib (k + 1) - now lib k) / 1000)),
                (''timestamp'', PStr (isoformat lib (now lib (k + 2))))], k + 3))) \<and>
      (\<forall>sc. sc xs = scaler self xs \<longrightarrow>
         predict lib (self\<lparr>scaler := sc\<rparr>) k url m = predict lib self k url m))"
proof -
  let ?arr = "np_array (prepare_feature_vector (feature_columns self)
      (extract_features lib self url None))"
  have a: "length (prepare_feature_vector (feature_columns self) features) =
      length (feature_columns self)"
    by (simp add: prepare_feature_vector_map)
  have b: "\<forall>i < length (feature_columns self).
      prepare_feature_vector (feature_columns self) features ! i =
        (case map_of features (feature_columns self ! i) of None \<Rightarrow> PInt 0 | Some v \<Rightarrow> v)"
    by (simp add: prepare_feature_vector_map dict_get_def)
  have c: "length xs = length (feature_columns self) \<and>
      (\<forall>i < length (feature_columns self).
         py_float (case map_of (extract_features lib self url None) (feature_columns self ! i) of
                     None \<Rightarrow> PInt 0 | Some v \<Rightarrow> v) = Inr (xs ! i))"
    if "?arr = Inr xs"
    using np_array_nth [OF that]
    by (simp add: prepare_feature_vector_map dict_get_def)
  have d: "predict lib (self\<lparr>scaler := sc\<rparr>) k url m = predict lib self k url m"
    if "?arr = Inr xs" and "sc xs = scaler self xs" for sc
    using predict_try_scaler [where self = self and lib = lib and url = url and xs = xs
        and sc = sc and k = k and m = m, OF that]
    by (simp add: predict_def)
  have e1: "predict_try lib self k url m = Inl e \<and>
         predict lib self k url m =
           ([(''url'', PStr url), (''error'', PStr (error_str e)),
             (''timestamp'', PStr (isoformat lib (now lib (k + 1))))], k + 2)"
    if "?arr = Inr xs" and "scaler self xs = Inl e" for e
    using predict_try_scaler_raises [OF that, of k m] by (simp add: predict_raises)
  have e2: "predict_try lib self k url m = Inl e \<and>
         predict lib self k url m =
           ([(''url'', PStr url), (''error'', PStr (error_str e)),
             (''timestamp'', PStr (isoformat lib (now lib (k + 1))))], k + 2)"
    if "?arr = Inr xs" and "scaler self xs = Inr scaled"
      and "dict_getitem (models self)
         (if \<not> dict_contains (models self) m then ''ensemble'' else m) = Inr model"
      and "clf_predict model scaled = Inl e" for e
    using predict_try_model_raises [OF that, of k] by (simp add: predict_raises)
  have s: "predict lib self k url m =
              ([(''url'', PStr url),
                (''predicted_attack_type'', PStr attack_type),
                (''confidence'', PFloat confidence),
                (''risk_level'', PStr (determine_risk_level attack_type confidence)),
                (''all_probabilities'', PDict all_probabilities),
                (''features'', PDict (extract_features lib self url None)),
                (''model_used'',
                   PStr (if \<not> dict_contains (models self) m then ''ensemble'' else m)),
                (''model_version'', PStr (model_version self)),
                (''processing_time_ms'',
                   PFloat (real_of_int (now lib (k + 1) - now lib k) / 1000)),
                (''timestamp'', PStr (isoformat lib (now lib (k + 2))))], k + 3)"
    if "?arr = Inr xs" and "scaler self xs = Inr scaled"
      and "dict_getitem (models self)
         (if \<not> dict_contains (models self) m then ''ensemble'' else m) = Inr model"
      and "clf_predict model scaled = Inr prediction"
      and "clf_predict_proba model scaled = Inr probabilities"
      and "label_encoder self prediction = Inr attack_type"
      and "np_max probabilities = Inr confidence"
      and "all_probabilities_loop self probabilities 0 [] = Inr all_probabilities"
    using predict_try_succeeds [OF that, of k] by (rule predict_returns)
  show ?thesis
    using a b c d e1 e2 s feature_vector_converts [of "feature_columns self" lib self url]
    by blast
qed


lemma sample_host_features:
  "extract_features sample_host_library sample_host_predictor [] None =
     [(''url_length'', PInt 0), (''domain_length'', PInt 9), (''path_length'', PInt 0),
      (''query_length'', PInt 0), (''special_char_count'', PInt 0), (''digit_count'', PInt 0),
      (''path_depth'', PInt 0), (''subdomain_count'', PInt 0), (''parameter_count'', PInt 0),
      (''encoded_chars_count'', PInt 0), (''frequency_score'', PFloat 0),
      (''suspicious_keyword_count'', PInt 0), (''entropy'', PFloat 0)]"
  by (simp add: extract_features_def extract_features_try_def sample_host_library_def
      sample_library_def calculate_entropy_empty counts_empty frequency_score_empty
      count_suspicious_keywords_empty)

lemma sample_host_columns:
  "feature_columns sample_host_predictor = [''domain_length'', ''entropy'']"
  by (simp add: sample_host_predictor_def)

lemma sample_host_array:
  "np_array (prepare_feature_vector (feature_columns sample_host_predictor)
     (extract_features sample_host_library sample_host_predictor [] None)) = Inr [9, 0]"
  by (simp add: sample_host_features sample_host_columns prepare_feature_vector_def dict_get_def)

lemma sample_host_steps:
  "scaler sample_host_predictor [9, 0] = Inr [4, - 1 / 2]"
  "dict_getitem (models sample_host_predictor)
     (if \<not> dict_contains (models sample_host_predictor) ''random_forest'' then ''ensemble''
      else ''random_forest'') = Inr sample_probe"
  "clf_predict sample_probe [4, - 1 / 2] = Inr 1"
  "clf_predict_proba sample_probe [4, - 1 / 2] = Inr [0.1, 0.9]"
  "label_encoder sample_host_predictor 1 = Inr ''xss''"
  "np_max [0.1, 0.9] = Inr 0.9"
  "all_probabilities_loop sample_host_predictor [0.1, 0.9] 0 [] =
     Inr [(''benign'', PFloat 0.1), (''xss'', PFloat 0.9)]"
  by (simp_all add: sample_host_predictor_def sample_predictor_def sample_probe_def
      dict_getitem_def dict_contains_def np_max_def)

lemma sample_wide_array:
  "np_array (prepare_feature_vector
       (feature_columns (sample_predictor\<lparr>feature_columns := [''url_length'', ''entropy'', ''tld'']\<rparr>))
       (extract_features sample_library
          (sample_predictor\<lparr>feature_columns := [''url_length'', ''entropy'', ''tld'']\<rparr>)
          ''a'' None)) = Inr [0, 0, 0]"
  using extract_features_try_nonempty [of "''a''" sample_library None]
  by (auto simp: extract_features_def default_features_def prepare_feature_vector_def dict_get_def)

theorem predict_feature_vector_follows_columns_witness:
  "length (prepare_feature_vector (feature_columns sample_predictor) [(''entropy'', PFloat 2)]) = 2 \<and>
   prepare_feature_vector (feature_columns sample_predictor) [(''entropy'', PFloat 2)] ! 0 = PInt 0 \<and>
   prepare_feature_vector (feature_columns sample_predictor) [(''entropy'', PFloat 2)] ! 1 = PFloat 2 \<and>
   np_array (prepare_feature_vector (feature_columns sample_host_predictor)
      (extract_features sample_host_library sample_host_predictor [] None)) = Inr [9, 0] \<and>
   predict sample_host_library sample_host_predictor 0 [] ''random_forest'' =
     ([(''url'', PStr []),
       (''predicted_attack_type'', PStr ''xss''),
       (''confidence'', PFloat 0.9),
       (''risk_level'', PStr ''critical''),
       (''all_probabilities'', PDict [(''benign'', PFloat 0.1), (''xss'', PFloat 0.9)]),
       (''features'', PDict (extract_features sample_host_library sample_host_predictor [] None)),
       (''model_used'', PStr ''ensemble''),
       (''model_version'', PStr ''1.0.0''),
       (''processing_time_ms'', PFloat 1),
       (''timestamp'', PStr ''early'')], 3) \<and>
   predict sample_library
      (sample_predictor\<lparr>feature_columns := [''url_length'', ''entropy'', ''tld'']\<rparr>) 0 ''a''
      ''ensemble'' =
     ([(''url'', PStr ''a''), (''error'', PStr ''X has a wrong number of features''),
       (''timestamp'', PStr ''early'')], 2)"
proof -
  have cols: "feature_columns sample_predictor = [''url_length'', ''entropy'']"
    by (simp add: sample_predictor_def)
  have idx: "(0::nat) < 2" "(1::nat) < 2" by simp_all
  have wide: "scaler (sample_predictor\<lparr>feature_columns := [''url_length'', ''entropy'', ''tld'']\<rparr>)
      [0, 0, 0] = Inl (ValueError ''X has a wrong number of features'')"
    by (simp add: sample_predictor_def)
  have env: "model_version sample_host_predictor = ''1.0.0''"
    "now sample_host_library = (\<lambda>k. 1000 * int k)"
    "isoformat sample_host_library 2000 = ''early''"
    "now sample_library = (\<lambda>k. 1000 * int k)"
    "isoformat sample_library 1000 = ''early''"
    "determine_risk_level ''xss'' 0.9 = ''critical''"
    "dict_contains (models sample_host_predictor) ''random_forest'' = False"
    by (simp_all add: sample_host_predictor_def sample_predictor_def sample_host_library_def
        sample_library_def determine_risk_level_def high_risk_attacks_def dict_contains_def)
  note run1 = predict_feature_vector_follows_columns
      [where self = sample_predictor and features = "[(''entropy'', PFloat 2)]"
        and lib = sample_library and url = "''a''" and xs = "[0, 0]" and k = 0
        and m = "''ensemble''"]
  note run2 = predict_feature_vector_follows_columns
      [where self = sample_host_predictor and features = "[]"
        and lib = sample_host_library and url = "[]" and xs = "[9, 0]" and k = 0
        and m = "''random_forest''" and scaled = "[4, - 1 / 2]" and model = sample_probe
        and prediction = 1 and probabilities = "[0.1, 0.9]" and attack_type = "''xss''"
        and confidence = "0.9"
        and all_probabilities = "[(''benign'', PFloat 0.1), (''xss'', PFloat 0.9)]"]
  note run3 = predict_feature_vector_follows_columns
      [where self = "sample_predictor\<lparr>feature_columns := [''url_length'', ''entropy'', ''tld'']\<rparr>"
        and features = "[]" and lib = sample_library and url = "''a''" and xs = "[0, 0, 0]"
        and k = 0 and m = "''ensemble''"]
  have first: "length (prepare_feature_vector (feature_columns sample_predictor)
        [(''entropy'', PFloat 2)]) = 2 \<and>
      prepare_feature_vector (feature_columns sample_predictor) [(''entropy'', PFloat 2)] ! 0 =
        PInt 0 \<and>
      prepare_feature_vector (feature_columns sample_predictor) [(''entropy'', PFloat 2)] ! 1 =
        PFloat 2"
    using run1 idx by (simp add: cols)
  have second: "predict sample_host_library sample_host_predictor 0 [] ''random_forest'' =
     ([(''url'', PStr []),
       (''predicted_attack_type'', PStr ''xss''),
       (''confidence'', PFloat 0.9),
       (''risk_level'', PStr ''critical''),
       (''all_probabilities'', PDict [(''benign'', PFloat 0.1), (''xss'', PFloat 0.9)]),
       (''features'', PDict (extract_features sample_host_library sample_host_predictor [] None)),
       (''model_used'', PStr ''ensemble''),
       (''model_version'', PStr ''1.0.0''),
       (''processing_time_ms'', PFloat 1),
       (''timestamp'', PStr ''early'')], 3)"
    using run2 sample_host_array sample_host_steps by (simp add: env)
  have third: "predict sample_library
      (sample_predictor\<lparr>feature_columns := [''url_length'', ''entropy'', ''tld'']\<rparr>) 0 ''a''
      ''ensemble'' =
     ([(''url'', PStr ''a''), (''error'', PStr ''X has a wrong number of features''),
       (''timestamp'', PStr ''early'')], 2)"
    using run3 sample_wide_array wide by (simp add: env)
  from first second third sample_host_array show ?thesis by simp
qed


lemma predict_raises_error_result:
  "predict_try lib self k url m = Inl e \<Longrightarrow>
   predict lib self k url m = (error_result lib (k + 1) url e, k + 2)"
  by (simp add: predict_def error_result_def)

lemma predict_try_result:
  assumes "predict_try lib self k url m = Inr res"
  shows "dict_keys res = success_keys \<and>
         map_of res ''url'' = Some (PStr url) \<and>
         map_of res ''model_used'' =
           Some (PStr (if \<not> dict_contains (models self) m then ''ensemble'' else m))"
  using assms
  by (auto simp: predict_try_def Let_def dict_keys_def success_keys_def split: sum.splits)

lemma dict_contains_keys: "dict_contains d k \<longleftrightarrow> k \<in> set (dict_keys d)"
  by (simp add: dict_contains_def dict_keys_def map_of_eq_None_iff)

lemma error_result_shape:
  "dict_keys (error_result lib k url e) = error_keys"
  "dict_contains (error_result lib k url e) ''error''"
  "map_of (error_result lib k url e) ''url'' = Some (PStr url)"
  "list_all (\<lambda>field. \<not> dict_contains (error_result lib k url e) field)
     [''predicted_attack_type'', ''confidence'', ''risk_level'', ''all_probabilities'',
      ''features'', ''model_used'', ''model_version'', ''processing_time_ms'']"
  by (simp_all add: error_result_def dict_keys_def error_keys_def dict_contains_def)

lemma predict_shape:
  "(\<exists>e. predict_try lib self k url m = Inl e \<and>
        predict lib self k url m = (error_result lib (k + 1) url e, k + 2)) \<or>
   (\<exists>res. predict_try lib self k url m = Inr res \<and>
        predict lib self k url m = (res, k + 3) \<and>
        dict_keys res = success_keys \<and> \<not> dict_contains res ''error'' \<and>
        map_of res ''url'' = Some (PStr url))"
proof (cases "predict_try lib self k url m")
  case (Inl e)
  then show ?thesis by (simp add: predict_raises_error_result)
next
  case (Inr res)
  from predict_try_result [OF Inr] have
    keys: "dict_keys res = success_keys" and u: "map_of res ''url'' = Some (PStr url)"
    by simp_all
  have "\<not> dict_contains res ''error''"
    by (simp add: dict_contains_keys keys success_keys_def)
  with Inr keys u show ?thesis by (simp add: predict_returns)
qed

lemma predict_try_steps:
  assumes "np_array (prepare_feature_vector (feature_columns self)
             (extract_features lib self url None)) = Inr xs"
  shows "predict_try lib self k url m =
     (case scaler self xs of
        Inl e \<Rightarrow> Inl e
      | Inr scaled \<Rightarrow>
      case dict_getitem (models self)
             (if \<not> dict_contains (models self) m then ''ensemble'' else m) of
        Inl e \<Rightarrow> Inl e
      | Inr model \<Rightarrow>
      case clf_predict model scaled of
        Inl e \<Rightarrow> Inl e
      | Inr prediction \<Rightarrow>
      case clf_predict_proba model scaled of
        Inl e \<Rightarrow> Inl e
      | Inr probabilities \<Rightarrow>
      case label_encoder self prediction of
        Inl e \<Rightarrow> Inl e
      | Inr attack_type \<Rightarrow>
      case np_max probabilities of
        Inl e \<Rightarrow> Inl e
      | Inr confidence \<Rightarrow>
      case all_probabilities_loop self probabilities 0 [] of
        Inl e \<Rightarrow> Inl e
      | Inr all_probabilities \<Rightarrow>
      Inr [(''url'', PStr url),
           (''predicted_attack_type'', PStr attack_type),
           (''confidence'', PFloat confidence),
           (''risk_level'', PStr (determine_risk_level attack_type confidence)),
           (''all_probabilities'', PDict all_probabilities),
           (''features'', PDict (extract_features lib self url None)),
           (''model_used'', PStr (if \<not> dict_contains (models self) m then ''ensemble'' else m)),
           (''model_version'', PStr (model_version self)),
           (''processing_time_ms'', PFloat (real_of_int (now lib (k + 1) - now lib k) / 1000)),
           (''timestamp'', PStr (isoformat lib (now lib (k + 2))))])"
  using assms by (simp add: predict_try_def Let_def cong: sum.case_cong)

lemma predict_step_raises:
  assumes "np_array (prepare_feature_vector (feature_columns self)
             (extract_features lib self url None)) = Inr xs"
  shows
   "(scaler self xs = Inl e \<longrightarrow> predict_try lib self k url m = Inl e) \<and>
    (scaler self xs = Inr scaled \<longrightarrow>
       (dict_getitem (models self)
          (if \<not> dict_contains (models self) m then ''ensemble'' else m) = Inl e \<longrightarrow>
          predict_try lib self k url m = Inl e) \<and>
       (dict_getitem (models self)
          (if \<not> dict_contains (models self) m then ''ensemble'' else m) = Inr model \<longrightarrow>
          (clf_predict model scaled = Inl e \<longrightarrow> predict_try lib self k url m = Inl e) \<and>
          (clf_predict model scaled = Inr prediction \<longrightarrow>
             (clf_predict_proba model scaled = Inl e \<longrightarrow>
                predict_try lib self k url m = Inl e) \<and>
             (clf_predict_proba model scaled = Inr probabilities \<longrightarrow>
                (label_encoder self prediction = Inl e \<longrightarrow>
                   predict_try lib self k url m = Inl e) \<and>
                (label_encoder self prediction = Inr attack_type \<longrightarrow>
                   (np_max probabilities = Inl e \<longrightarrow>
                      predict_try lib self k url m = Inl e) \<and>
                   (np_max probabilities = Inr confidence \<longrightarrow>
                      (all_probabilities_loop self probabilities 0 [] = Inl e \<longrightarrow>
                         predict_try lib self k url m = Inl e) \<and>
                      (all_probabilities_loop self probabilities 0 [] = Inr all_probabilities
                         \<longrightarrow> (\<exists>res. predict_try lib self k url m = Inr res))))))))"
  by (simp add: predict_try_steps [OF assms])


lemma np_array_zeros: "np_array (map (\<lambda>col. PInt 0) cols) = Inr (map (\<lambda>col. 0) cols)"
  by (induction cols) simp_all

lemma extract_features_nonempty:
  "url \<noteq> [] \<Longrightarrow> extract_features lib self url extra = default_features self"
  using extract_features_try_nonempty [of url lib extra]
  by (auto simp: extract_features_def)

lemma nonempty_url_array:
  assumes "url \<noteq> []"
  shows "np_array (prepare_feature_vector (feature_columns self)
           (extract_features lib self url None)) = Inr (map (\<lambda>col. 0) (feature_columns self))"
proof -
  have "prepare_feature_vector (feature_columns self) (default_features self) =
      map (\<lambda>col. PInt 0) (feature_columns self)"
    by (simp add: prepare_feature_vector_map dict_get_def default_features_lookup)
  then show ?thesis
    by (simp add: extract_features_nonempty [OF assms] np_array_zeros)
qed

text \<open>
  C2. \<^verbatim>\<open>predict\<close> returns a dictionary for every URL and model name. Whichever step of its
  \<^verbatim>\<open>try\<close> block raises (the scaler, the lookup of the model, \<^verbatim>\<open>model.predict\<close>,
  \<^verbatim>\<open>model.predict_proba\<close>, the label encoder, \<^verbatim>\<open>np.max\<close>, the loop over the
  probabilities), the result is the error result with exactly the keys \<^verbatim>\<open>url\<close>, \<^verbatim>\<open>error\<close>,
  \<^verbatim>\<open>timestamp\<close>, carrying the URL and the text of the exception. Every result has either the
  keys of an error result or the keys of a prediction result: one with the key \<^verbatim>\<open>error\<close> has
  none of the prediction fields, and one without it has the ten prediction fields.
\<close>

theorem predict_returns_error_result_on_exception:
  "(\<exists>ys. np_array (prepare_feature_vector (feature_columns self)
            (extract_features lib self url None)) = Inr ys) \<and>
   (np_array (prepare_feature_vector (feature_columns self)
      (extract_features lib self url None)) = Inr xs \<longrightarrow>
    (scaler self xs = Inl e \<longrightarrow>
       predict lib self k url m = (error_result lib (k + 1) url e, k + 2)) \<and>
    (scaler self xs = Inr scaled \<longrightarrow>
       (dict_getitem (models self)
          (if \<not> dict_contains (models self) m then ''ensemble'' else m) = Inl e \<longrightarrow>
          predict lib self k url m = (error_result lib (k + 1) url e, k + 2)) \<and>
       (dict_getitem (models self)
          (if \<not> dict_contains (models self) m then ''ensemble'' else m) = Inr model \<longrightarrow>
          (clf_predict model scaled = Inl e \<longrightarrow>
             predict lib self k url m = (error_result lib (k + 1) url e, k + 2)) \<and>
          (clf_predict model scaled = Inr prediction \<longrightarrow>
             (clf_predict_proba model scaled = Inl e \<longrightarrow>
                predict lib self k url m = (error_result lib (k + 1) url e, k + 2)) \<and>
             (clf_predict_proba model scaled = Inr probabilities \<longrightarrow>
                (label_encoder self prediction = Inl e \<longrightarrow>
                   predict lib self k url m = (error_result lib (k + 1) url e, k + 2)) \<and>
                (label_encoder self prediction = Inr attack_type \<longrightarrow>
                   (np_max probabilities = Inl e \<longrightarrow>
                      predict lib self k url m = (error_result lib (k + 1) url e, k + 2)) \<and>
                   (np_max probabilities = Inr confidence \<longrightarrow>
                      (all_probabilities_loop self probabilities 0 [] = Inl e \<longrightarrow>
                         predict lib self k url m = (error_result lib (k + 1) url e, k + 2)) \<and>
                      (all_probabilities_loop self probabilities 0 [] = Inr all_probabilities
                         \<longrightarrow>
                         dict_keys (fst (predict lib self k url m)) = success_keys \<and>
                         \<not> dict_contains (fst (predict lib self k url m)) ''error'')))))))) \<and>
   dict_keys (error_result lib (k + 1) url e) = error_keys \<and>
   (dict_keys (fst (predict lib self k url m)) = error_keys \<or>
    dict_keys (fst (predict lib self k url m)) = success_keys) \<and>
   (dict_contains (fst (predict lib self k url m)) ''error'' \<longrightarrow>
      (\<exists>e'. predict lib self k url m = (error_result lib (k + 1) url e', k + 2)) \<and>
      dict_keys (fst (predict lib self k url m)) = error_keys \<and>
      list_all (\<lambda>field. \<not> dict_contains (fst (predict lib self k url m)) field)
        [''predicted_attack_type'', ''confidence'', ''risk_level'', ''all_probabilities'',
         ''features'', ''model_used'', ''model_version'', ''processing_time_ms'']) \<and>
   (\<not> dict_contains (fst (predict lib self k url m)) ''error'' \<longrightarrow>
      dict_keys (fst (predict lib self k url m)) = success_keys \<and>
      snd (predict lib self k url m) = k + 3) \<and>
   map_of (fst (predict lib self k url m)) ''url'' = Some (PStr url)"
proof -
  let ?arr = "np_array (prepare_feature_vector (feature_columns self)
      (extract_features lib self url None))"
  let ?err = "predict lib self k url m = (error_result lib (k + 1) url e, k + 2)"
  have raises: "?err" if "predict_try lib self k url m = Inl e"
    using that by (rule predict_raises_error_result)
  have good: "dict_keys (fst (predict lib self k url m)) = success_keys \<and>
      \<not> dict_contains (fst (predict lib self k url m)) ''error''"
    if "\<exists>res. predict_try lib self k url m = Inr res"
    using that predict_shape [of lib self k url m] by auto
  have steps: "(scaler self xs = Inl e \<longrightarrow> ?err) \<and>
    (scaler self xs = Inr scaled \<longrightarrow>
       (dict_getitem (models self)
          (if \<not> dict_contains (models self) m then ''ensemble'' else m) = Inl e \<longrightarrow> ?err) \<and>
       (dict_getitem (models self)
          (if \<not> dict_contains (models self) m then ''ensemble'' else m) = Inr model \<longrightarrow>
          (clf_predict model scaled = Inl e \<longrightarrow> ?err) \<and>
          (clf_predict model scaled = Inr prediction \<longrightarrow>
             (clf_predict_proba model scaled = Inl e \<longrightarrow> ?err) \<and>
             (clf_predict_proba model scaled = Inr probabilities \<longrightarrow>
                (label_encoder self prediction = Inl e \<longrightarrow> ?err) \<and>
                (label_encoder self prediction = Inr attack_type \<longrightarrow>
                   (np_max probabilities = Inl e \<longrightarrow> ?err) \<and>
                   (np_max probabilities = Inr confidence \<longrightarrow>
                      (all_probabilities_loop self probabilities 0 [] = Inl e \<longrightarrow> ?err) \<and>
                      (all_probabilities_loop self probabilities 0 [] = Inr all_probabilities
                         \<longrightarrow>
                         dict_keys (fst (predict lib self k url m)) = success_keys \<and>
                         \<not> dict_contains (fst (predict lib self k url m)) ''error'')))))))"
    if "?arr = Inr xs"
    using predict_step_raises [OF that, of e k m scaled model prediction probabilities
        attack_type confidence all_probabilities] raises good
    by blast
  have shape: "(dict_keys (fst (predict lib self k url m)) = error_keys \<or>
    dict_keys (fst (predict lib self k url m)) = success_keys) \<and>
   (dict_contains (fst (predict lib self k url m)) ''error'' \<longrightarrow>
      (\<exists>e'. predict lib self k url m = (error_result lib (k + 1) url e', k + 2)) \<and>
      dict_keys (fst (predict lib self k url m)) = error_keys \<and>
      list_all (\<lambda>field. \<not> dict_contains (fst (predict lib self k url m)) field)
        [''predicted_attack_type'', ''confidence'', ''risk_level'', ''all_probabilities'',
         ''features'', ''model_used'', ''model_version'', ''processing_time_ms'']) \<and>
   (\<not> dict_contains (fst (predict lib self k url m)) ''error'' \<longrightarrow>
      dict_keys (fst (predict lib self k url m)) = success_keys \<and>
      snd (predict lib self k url m) = k + 3) \<and>
   map_of (fst (predict lib self k url m)) ''url'' = Some (PStr url)"
    using predict_shape [of lib self k url m]
  proof (elim disjE exE conjE)
    fix e' assume "predict lib self k url m = (error_result lib (k + 1) url e', k + 2)"
    then show ?thesis
      using error_result_shape [of lib "k + 1" url e'] by auto
  next
    fix res assume "predict lib self k url m = (res, k + 3)"
      and "dict_keys res = success_keys" and "\<not> dict_contains res ''error''"
      and "map_of res ''url'' = Some (PStr url)"
    then show ?thesis by simp
  qed
  show ?thesis
    using steps shape feature_vector_converts [of "feature_columns self" lib self url]
      error_result_shape(1) [of lib "k + 1" url e]
    by blast
qed

theorem predict_returns_error_result_on_exception_witness:
  "predict sample_host_library sample_host_predictor 0 ''a'' ''ensemble'' =
     ([(''url'', PStr ''a''), (''error'', PStr ''unexpected input''),
       (''timestamp'', PStr ''early'')], 2) \<and>
   predict sample_library (sample_predictor\<lparr>models := []\<rparr>) 4 ''a'' ''xgboost'' =
     ([(''url'', PStr ''a''), (''error'', PStr (CHR 0x27 # ''ensemble'' @ [CHR 0x27])),
       (''timestamp'', PStr ''late'')], 6) \<and>
   dict_keys (fst (predict sample_library sample_predictor 0 ''a'' ''xgboost'')) =
     [''url'', ''predicted_attack_type'', ''confidence'', ''risk_level'', ''all_probabilities'',
      ''features'', ''model_used'', ''model_version'', ''processing_time_ms'', ''timestamp''] \<and>
   \<not> dict_contains (fst (predict sample_library sample_predictor 0 ''a'' ''xgboost'')) ''error''"
proof -
  have ne: "''a'' \<noteq> []" by simp
  have arr1: "np_array (prepare_feature_vector (feature_columns sample_host_predictor)
      (extract_features sample_host_library sample_host_predictor ''a'' None)) = Inr [0, 0]"
    using nonempty_url_array [OF ne, of sample_host_predictor sample_host_library]
    by (simp add: sample_host_columns)
  have steps1:
    "scaler sample_host_predictor [0, 0] = Inr [- 1 / 2, - 1 / 2]"
    "dict_getitem (models sample_host_predictor)
       (if \<not> dict_contains (models sample_host_predictor) ''ensemble'' then ''ensemble''
        else ''ensemble'') = Inr sample_probe"
    "clf_predict sample_probe [- 1 / 2, - 1 / 2] = Inl (ValueError ''unexpected input'')"
    by (simp_all add: sample_host_predictor_def sample_predictor_def sample_probe_def
        dict_getitem_def)
  have arr2: "np_array (prepare_feature_vector (feature_columns (sample_predictor\<lparr>models := []\<rparr>))
      (extract_features sample_library (sample_predictor\<lparr>models := []\<rparr>) ''a'' None)) =
      Inr [0, 0]"
    using nonempty_url_array [OF ne, of "sample_predictor\<lparr>models := []\<rparr>" sample_library]
    by (simp add: sample_predictor_def)
  have steps2:
    "scaler (sample_predictor\<lparr>models := []\<rparr>) [0, 0] = Inr [- 1 / 2, - 1 / 2]"
    "dict_getitem (models (sample_predictor\<lparr>models := []\<rparr>))
       (if \<not> dict_contains (models (sample_predictor\<lparr>models := []\<rparr>)) ''xgboost''
        then ''ensemble'' else ''xgboost'') = Inl (KeyError ''ensemble'')"
    by (simp_all add: sample_predictor_def dict_getitem_def dict_contains_def)
  have arr3: "np_array (prepare_feature_vector (feature_columns sample_predictor)
      (extract_features sample_library sample_predictor ''a'' None)) = Inr [0, 0]"
    using nonempty_url_array [OF ne, of sample_predictor sample_library]
    by (simp add: sample_predictor_def)
  have steps3:
    "scaler sample_predictor [0, 0] = Inr [- 1 / 2, - 1 / 2]"
    "dict_getitem (models sample_predictor)
       (if \<not> dict_contains (models sample_predictor) ''xgboost'' then ''ensemble''
        else ''xgboost'') = Inr sample_xgb"
    "clf_predict sample_xgb [- 1 / 2, - 1 / 2] = Inr 0"
    "clf_predict_proba sample_xgb [- 1 / 2, - 1 / 2] = Inr [0.6, 0.4]"
    "label_encoder sample_predictor 0 = Inr ''benign''"
    "np_max [0.6, 0.4] = Inr 0.6"
    "all_probabilities_loop sample_predictor [0.6, 0.4] 0 [] =
       Inr [(''benign'', PFloat 0.6), (''xss'', PFloat 0.4)]"
    by (simp_all add: sample_predictor_def sample_xgb_def dict_getitem_def dict_contains_def
        np_max_def)
  have env:
    "error_result sample_host_library 1 ''a'' (ValueError ''unexpected input'') =
       [(''url'', PStr ''a''), (''error'', PStr ''unexpected input''),
        (''timestamp'', PStr ''early'')]"
    "error_result sample_library 5 ''a'' (KeyError ''ensemble'') =
       [(''url'', PStr ''a''), (''error'', PStr (CHR 0x27 # ''ensemble'' @ [CHR 0x27])),
        (''timestamp'', PStr ''late'')]"
    by (simp_all add: error_result_def sample_host_library_def sample_library_def)
  note run1 = predict_returns_error_result_on_exception
      [where lib = sample_host_library and self = sample_host_predictor and url = "''a''"
        and k = 0 and m = "''ensemble''" and xs = "[0, 0]" and scaled = "[- 1 / 2, - 1 / 2]"
        and model = sample_probe and e = "ValueError ''unexpected input''"]
  note run2 = predict_returns_error_result_on_exception
      [where lib = sample_library and self = "sample_predictor\<lparr>models := []\<rparr>"
        and url = "''a''" and k = 4 and m = "''xgboost''" and xs = "[0, 0]"
        and scaled = "[- 1 / 2, - 1 / 2]" and e = "KeyError ''ensemble''"]
  note run3 = predict_returns_error_result_on_exception
      [where lib = sample_library and self = sample_predictor and url = "''a''" and k = 0
        and m = "''xgboost''" and xs = "[0, 0]" and scaled = "[- 1 / 2, - 1 / 2]"
        and model = sample_xgb and prediction = 0 and probabilities = "[0.6, 0.4]"
        and attack_type = "''benign''" and confidence = "0.6"
        and all_probabilities = "[(''benign'', PFloat 0.6), (''xss'', PFloat 0.4)]"]
  have first: "predict sample_host_library sample_host_predictor 0 ''a'' ''ensemble'' =
     ([(''url'', PStr ''a''), (''error'', PStr ''unexpected input''),
       (''timestamp'', PStr ''early'')], 2)"
    using run1 arr1 steps1 env by simp
  have second: "predict sample_library (sample_predictor\<lparr>models := []\<rparr>) 4 ''a'' ''xgboost'' =
     ([(''url'', PStr ''a''), (''error'', PStr (CHR 0x27 # ''ensemble'' @ [CHR 0x27])),
       (''timestamp'', PStr ''late'')], 6)"
    using run2 arr2 steps2 env by simp
  have third: "dict_keys (fst (predict sample_library sample_predictor 0 ''a'' ''xgboost'')) =
      success_keys \<and>
    \<not> dict_contains (fst (predict sample_library sample_predictor 0 ''a'' ''xgboost'')) ''error''"
    using run3 arr3 steps3 by simp
  from first second third show ?thesis by (simp add: success_keys_def)
qed


lemma predict_try_unknown_model:
  "\<not> dict_contains (models self) m \<Longrightarrow>
   predict_try lib self k url m = predict_try lib self k url ''ensemble''"
  by (simp add: predict_try_def)

lemma predict_unknown_model:
  "\<not> dict_contains (models self) m \<Longrightarrow>
   predict lib self k url m = predict lib self k url ''ensemble''"
  by (simp add: predict_def predict_try_unknown_model)

lemma predict_model_used:
  assumes "\<not> dict_contains (fst (predict lib self k url m)) ''error''"
  shows "map_of (fst (predict lib self k url m)) ''model_used'' =
     Some (PStr (if \<not> dict_contains (models self) m then ''ensemble'' else m))"
proof (cases "predict_try lib self k url m")
  case (Inl e)
  with assms show ?thesis
    using error_result_shape(2) [of lib "k + 1" url e]
    by (simp add: predict_raises_error_result)
next
  case (Inr res)
  then show ?thesis
    using predict_try_result [OF Inr] by (simp add: predict_returns)
qed

text \<open>
  C5. For a model name \<open>m\<close> that is not a key of \<^verbatim>\<open>self.models\<close>, \<^verbatim>\<open>predict(url, m)\<close>
  returns what \<^verbatim>\<open>predict(url, 'ensemble')\<close> returns at the same clock. When
  \<^verbatim>\<open>self.models\<close> has the key \<^verbatim>\<open>ensemble\<close> and the steps of the prediction succeed on that
  model, the result is the prediction result built from the answers of the ensemble model, with
  \<^verbatim>\<open>model_used\<close> equal to \<^verbatim>\<open>ensemble\<close>; every result without the key \<^verbatim>\<open>error\<close> names
  \<^verbatim>\<open>ensemble\<close> as the model used, and the call returns an error result exactly when the call
  with \<^verbatim>\<open>ensemble\<close> does. Only when \<^verbatim>\<open>self.models\<close> has no key \<^verbatim>\<open>ensemble\<close> is the lookup
  itself an error, and it names \<^verbatim>\<open>ensemble\<close>, not \<open>m\<close>.
\<close>

theorem predict_unknown_model_falls_back_to_ensemble:
  "\<not> dict_contains (models self) m \<longrightarrow>
     predict lib self k url m = predict lib self k url ''ensemble'' \<and>
     (dict_contains (fst (predict lib self k url m)) ''error'' \<longleftrightarrow>
      dict_contains (fst (predict lib self k url ''ensemble'')) ''error'') \<and>
     (\<not> dict_contains (fst (predict lib self k url m)) ''error'' \<longrightarrow>
        map_of (fst (predict lib self k url m)) ''model_used'' = Some (PStr ''ensemble'')) \<and>
     (np_array (prepare_feature_vector (feature_columns self)
        (extract_features lib self url None)) = Inr xs \<and>
      scaler self xs = Inr scaled \<longrightarrow>
        (map_of (models self) ''ensemble'' = None \<longrightarrow>
           predict lib self k url m =
             (error_result lib (k + 1) url (KeyError ''ensemble''), k + 2)) \<and>
        (map_of (models self) ''ensemble'' = Some model \<and>
         clf_predict model scaled = Inr prediction \<and>
         clf_predict_proba model scaled = Inr probabilities \<and>
         label_encoder self prediction = Inr attack_type \<and>
         np_max probabilities = Inr confidence \<and>
         all_probabilities_loop self probabilities 0 [] = Inr all_probabilities \<longrightarrow>
           predict lib self k url m =
             ([(''url'', PStr url),
               (''predicted_attack_type'', PStr attack_type),
               (''confidence'', PFloat confidence),
               (''risk_level'', PStr (determine_risk_level attack_type confidence)),
               (''all_probabilities'', PDict all_probabilities),
               (''features'', PDict (extract_features lib self url None)),
               (''model_used'', PStr ''ensemble''),
               (''model_version'', PStr (model_version self)),
               (''processing_time_ms'',
                  PFloat (real_of_int (now lib (k + 1) - now lib k) / 1000)),
               (''timestamp'', PStr (isoformat lib (now lib (k + 2))))], k + 3)))"
proof (intro impI)
  assume unknown: "\<not> dict_contains (models self) m"
  let ?arr = "np_array (prepare_feature_vector (feature_columns self)
        (extract_features lib self url None))"
  have same: "predict lib self k url m = predict lib self k url ''ensemble''"
    using unknown by (rule predict_unknown_model)
  have used: "map_of (fst (predict lib self k url m)) ''model_used'' = Some (PStr ''ensemble'')"
    if "\<not> dict_contains (fst (predict lib self k url m)) ''error''"
    using predict_model_used [OF that] unknown by simp
  have missing: "predict lib self k url m =
      (error_result lib (k + 1) url (KeyError ''ensemble''), k + 2)"
    if "?arr = Inr xs" and "scaler self xs = Inr scaled"
      and "map_of (models self) ''ensemble'' = None"
  proof -
    have "predict_try lib self k url m = Inl (KeyError ''ensemble'')"
      using that unknown by (simp add: predict_try_steps dict_getitem_def)
    then show ?thesis by (rule predict_raises_error_result)
  qed
  have found: "predict lib self k url m =
             ([(''url'', PStr url),
               (''predicted_attack_type'', PStr attack_type),
               (''confidence'', PFloat confidence),
               (''risk_level'', PStr (determine_risk_level attack_type confidence)),
               (''all_probabilities'', PDict all_probabilities),
               (''features'', PDict (extract_features lib self url None)),
               (''model_used'', PStr ''ensemble''),
               (''model_version'', PStr (model_version self)),
               (''processing_time_ms'',
                  PFloat (real_of_int (now lib (k + 1) - now lib k) / 1000)),
               (''timestamp'', PStr (isoformat lib (now lib (k + 2))))], k + 3)"
    if "?arr = Inr xs" and "scaler self xs = Inr scaled"
      and "map_of (models self) ''ensemble'' = Some model"
      and "clf_predict model scaled = Inr prediction"
      and "clf_predict_proba model scaled = Inr probabilities"
      and "label_encoder self prediction = Inr attack_type"
      and "np_max probabilities = Inr confidence"
      and "all_probabilities_loop self probabilities 0 [] = Inr all_probabilities"
  proof -
    have "predict_try lib self k url m =
           Inr [(''url'', PStr url),
               (''predicted_attack_type'', PStr attack_type),
               (''confidence'', PFloat confidence),
               (''risk_level'', PStr (determine_risk_level attack_type confidence)),
               (''all_probabilities'', PDict all_probabilities),
               (''features'', PDict (extract_features lib self url None)),
               (''model_used'', PStr ''ensemble''),
               (''model_version'', PStr (model_version self)),
               (''processing_time_ms'',
                  PFloat (real_of_int (now lib (k + 1) - now lib k) / 1000)),
               (''timestamp'', PStr (isoformat lib (now lib (k + 2))))]"
      using that unknown by (simp add: predict_try_steps dict_getitem_def)
    then show ?thesis by (rule predict_returns)
  qed
  show "predict lib self k url m = predict lib self k url ''ensemble'' \<and>
     (dict_contains (fst (predict lib self k url m)) ''error'' \<longleftrightarrow>
      dict_contains (fst (predict lib self k url ''ensemble'')) ''error'') \<and>
     (\<not> dict_contains (fst (predict lib self k url m)) ''error'' \<longrightarrow>
        map_of (fst (predict lib self k url m)) ''model_used'' = Some (PStr ''ensemble'')) \<and>
     (?arr = Inr xs \<and> scaler self xs = Inr scaled \<longrightarrow>
        (map_of (models self) ''ensemble'' = None \<longrightarrow>
           predict lib self k url m =
             (error_result lib (k + 1) url (KeyError ''ensemble''), k + 2)) \<and>
        (map_of (models self) ''ensemble'' = Some model \<and>
         clf_predict model scaled = Inr prediction \<and>
         clf_predict_proba model scaled = Inr probabilities \<and>
         label_encoder self prediction = Inr attack_type \<and>
         np_max probabilities = Inr confidence \<and>
         all_probabilities_loop self probabilities 0 [] = Inr all_probabilities \<longrightarrow>
           predict lib self k url m =
             ([(''url'', PStr url),
               (''predicted_attack_type'', PStr attack_type),
               (''confidence'', PFloat confidence),
               (''risk_level'', PStr (determine_risk_level attack_type confidence)),
               (''all_probabilities'', PDict all_probabilities),
               (''features'', PDict (extract_features lib self url None)),
               (''model_used'', PStr ''ensemble''),
               (''model_version'', PStr (model_version self)),
               (''processing_time_ms'',
                  PFloat (real_of_int (now lib (k + 1) - now lib k) / 1000)),
               (''timestamp'', PStr (isoformat lib (now lib (k + 2))))], k + 3)))"
    using same used missing found by simp
qed

theorem predict_unknown_model_falls_back_to_ensemble_witness:
  "predict sample_host_library sample_host_predictor 0 [] ''svm'' =
     predict sample_host_library sample_host_predictor 0 [] ''ensemble'' \<and>
   predict sample_host_library sample_host_predictor 0 [] ''svm'' =
     ([(''url'', PStr []),
       (''predicted_attack_type'', PStr ''xss''),
       (''confidence'', PFloat 0.9),
       (''risk_level'', PStr ''critical''),
       (''all_probabilities'', PDict [(''benign'', PFloat 0.1), (''xss'', PFloat 0.9)]),
       (''features'', PDict (extract_features sample_host_library sample_host_predictor [] None)),
       (''model_used'', PStr ''ensemble''),
       (''model_version'', PStr ''1.0.0''),
       (''processing_time_ms'', PFloat 1),
       (''timestamp'', PStr ''early'')], 3) \<and>
   predict sample_library (sample_predictor\<lparr>models := [(''random_forest'', sample_rf)]\<rparr>) 0
       ''a'' ''svm'' =
     ([(''url'', PStr ''a''), (''error'', PStr (CHR 0x27 # ''ensemble'' @ [CHR 0x27])),
       (''timestamp'', PStr ''early'')], 2)"
proof -
  have unknown1: "\<not> dict_contains (models sample_host_predictor) ''svm''"
    by (simp add: sample_host_predictor_def dict_contains_def)
  have steps1:
    "scaler sample_host_predictor [9, 0] = Inr [4, - 1 / 2]"
    "map_of (models sample_host_predictor) ''ensemble'' = Some sample_probe"
    "clf_predict sample_probe [4, - 1 / 2] = Inr 1"
    "clf_predict_proba sample_probe [4, - 1 / 2] = Inr [0.1, 0.9]"
    "label_encoder sample_host_predictor 1 = Inr ''xss''"
    "np_max [0.1, 0.9] = Inr 0.9"
    "all_probabilities_loop sample_host_predictor [0.1, 0.9] 0 [] =
       Inr [(''benign'', PFloat 0.1), (''xss'', PFloat 0.9)]"
    by (simp_all add: sample_host_predictor_def sample_predictor_def sample_probe_def np_max_def)
  have env1: "model_version sample_host_predictor = ''1.0.0''"
    "now sample_host_library = (\<lambda>k. 1000 * int k)"
    "isoformat sample_host_library 2000 = ''early''"
    "determine_risk_level ''xss'' 0.9 = ''critical''"
    by (simp_all add: sample_host_predictor_def sample_predictor_def sample_host_library_def
        sample_library_def determine_risk_level_def high_risk_attacks_def)
  have ne: "''a'' \<noteq> []" by simp
  have unknown2:
    "\<not> dict_contains (models (sample_predictor\<lparr>models := [(''random_forest'', sample_rf)]\<rparr>))
        ''svm''"
    by (simp add: dict_contains_def)
  have arr2: "np_array (prepare_feature_vector
      (feature_columns (sample_predictor\<lparr>models := [(''random_forest'', sample_rf)]\<rparr>))
      (extract_features sample_library
         (sample_predictor\<lparr>models := [(''random_forest'', sample_rf)]\<rparr>) ''a'' None)) =
      Inr [0, 0]"
    using nonempty_url_array [OF ne,
        of "sample_predictor\<lparr>models := [(''random_forest'', sample_rf)]\<rparr>" sample_library]
    by (simp add: sample_predictor_def)
  have steps2:
    "scaler (sample_predictor\<lparr>models := [(''random_forest'', sample_rf)]\<rparr>) [0, 0] =
       Inr [- 1 / 2, - 1 / 2]"
    "map_of (models (sample_predictor\<lparr>models := [(''random_forest'', sample_rf)]\<rparr>))
       ''ensemble'' = None"
    by (simp_all add: sample_predictor_def)
  have env2: "error_result sample_library 1 ''a'' (KeyError ''ensemble'') =
       [(''url'', PStr ''a''), (''error'', PStr (CHR 0x27 # ''ensemble'' @ [CHR 0x27])),
        (''timestamp'', PStr ''early'')]"
    by (simp add: error_result_def sample_library_def)
  note run1 = predict_unknown_model_falls_back_to_ensemble
      [where lib = sample_host_library and self = sample_host_predictor and url = "[]"
        and k = 0 and m = "''svm''" and xs = "[9, 0]" and scaled = "[4, - 1 / 2]"
        and model = sample_probe and prediction = 1 and probabilities = "[0.1, 0.9]"
        and attack_type = "''xss''" and confidence = "0.9"
        and all_probabilities = "[(''benign'', PFloat 0.1), (''xss'', PFloat 0.9)]"]
  note run2 = predict_unknown_model_falls_back_to_ensemble
      [where lib = sample_library
        and self = "sample_predictor\<lparr>models := [(''random_forest'', sample_rf)]\<rparr>"
        and url = "''a''" and k = 0 and m = "''svm''" and xs = "[0, 0]"
        and scaled = "[- 1 / 2, - 1 / 2]"]
  have same: "predict sample_host_library sample_host_predictor 0 [] ''svm'' =
       predict sample_host_library sample_host_predictor 0 [] ''ensemble''"
    using run1 [THEN mp, OF unknown1, THEN conjunct1] .
  have first: "predict sample_host_library sample_host_predictor 0 [] ''svm'' =
     ([(''url'', PStr []),
       (''predicted_attack_type'', PStr ''xss''),
       (''confidence'', PFloat 0.9),
       (''risk_level'', PStr ''critical''),
       (''all_probabilities'', PDict [(''benign'', PFloat 0.1), (''xss'', PFloat 0.9)]),
       (''features'', PDict (extract_features sample_host_library sample_host_predictor [] None)),
       (''model_used'', PStr ''ensemble''),
       (''model_version'', PStr ''1.0.0''),
       (''processing_time_ms'', PFloat 1),
       (''timestamp'', PStr ''early'')], 3)"
    using run1 [THEN mp, OF unknown1, THEN conjunct2] sample_host_array steps1
    by (simp add: env1 sample_host_columns)
  have second: "predict sample_library
       (sample_predictor\<lparr>models := [(''random_forest'', sample_rf)]\<rparr>) 0 ''a'' ''svm'' =
     ([(''url'', PStr ''a''), (''error'', PStr (CHR 0x27 # ''ensemble'' @ [CHR 0x27])),
       (''timestamp'', PStr ''early'')], 2)"
    using run2 [THEN mp, OF unknown2, THEN conjunct2] arr2 steps2 env2 by simp
  from same first second show ?thesis by simp
qed


lemma batch_predict_loop_acc:
  "batch_predict_loop lib self m urls results k =
     (results @ fst (batch_predict_loop lib self m urls [] k),
      snd (batch_predict_loop lib self m urls [] k))"
proof (induction urls arbitrary: results k)
  case Nil
  show ?case by simp
next
  case (Cons url urls)
  obtain result k' where p: "predict lib self k url m = (result, k')"
    by (cases "predict lib self k url m")
  have a: "batch_predict_loop lib self m urls (results @ [result]) k' =
     ((results @ [result]) @ fst (batch_predict_loop lib self m urls [] k'),
      snd (batch_predict_loop lib self m urls [] k'))"
    by (rule Cons.IH)
  have b: "batch_predict_loop lib self m urls ([] @ [result]) k' =
     (([] @ [result]) @ fst (batch_predict_loop lib self m urls [] k'),
      snd (batch_predict_loop lib self m urls [] k'))"
    by (rule Cons.IH)
  show ?case
    by (simp add: p a) (simp add: b [simplified])
qed

lemma batch_predict_Nil: "batch_predict lib self k [] m = ([], k)"
  by (simp add: batch_predict_def)

lemma batch_predict_Cons:
  "batch_predict lib self k (url # urls) m =
     (fst (predict lib self k url m) #
        fst (batch_predict lib self (snd (predict lib self k url m)) urls m),
      snd (batch_predict lib self (snd (predict lib self k url m)) urls m))"
proof -
  obtain result k' where p: "predict lib self k url m = (result, k')"
    by (cases "predict lib self k url m")
  have "batch_predict_loop lib self m urls [result] k' =
     ([result] @ fst (batch_predict_loop lib self m urls [] k'),
      snd (batch_predict_loop lib self m urls [] k'))"
    by (rule batch_predict_loop_acc)
  then show ?thesis
    by (simp add: batch_predict_def p)
qed

lemma batch_predict_length: "length (fst (batch_predict lib self k urls m)) = length urls"
  by (induction urls arbitrary: k) (simp_all add: batch_predict_Nil batch_predict_Cons)

lemma batch_predict_nth:
  "i < length urls \<Longrightarrow>
   fst (batch_predict lib self k urls m) ! i =
     fst (predict lib self (snd (batch_predict lib self k (take i urls) m)) (urls ! i) m)"
proof (induction urls arbitrary: k i)
  case Nil
  then show ?case by simp
next
  case (Cons url urls)
  show ?case
  proof (cases i)
    case 0
    then show ?thesis by (simp add: batch_predict_Nil batch_predict_Cons)
  next
    case (Suc j)
    with Cons.prems have "j < length urls" by simp
    from Cons.IH [OF this, of "snd (predict lib self k url m)"] Suc show ?thesis
      by (simp add: batch_predict_Cons)
  qed
qed


lemma predict_try_cases:
  assumes "np_array (prepare_feature_vector (feature_columns self)
             (extract_features lib self url None)) = Inr xs"
  shows "(\<exists>e. \<forall>k. predict_try lib self k url m = Inl e) \<or>
    (\<exists>attack_type confidence all_probabilities. \<forall>k. predict_try lib self k url m =
       Inr [(''url'', PStr url),
          (''predicted_attack_type'', PStr attack_type),
          (''confidence'', PFloat confidence),
          (''risk_level'', PStr (determine_risk_level attack_type confidence)),
          (''all_probabilities'', PDict all_probabilities),
          (''features'', PDict (extract_features lib self url None)),
          (''model_used'', PStr (if \<not> dict_contains (models self) m then ''ensemble'' else m)),
          (''model_version'', PStr (model_version self)),
          (''processing_time_ms'', PFloat (real_of_int (now lib (k + 1) - now lib k) / 1000)),
          (''timestamp'', PStr (isoformat lib (now lib (k + 2))))])"
proof -
  let ?name = "if \<not> dict_contains (models self) m then ''ensemble'' else m"
  note st = predict_step_raises [OF assms]
  show ?thesis
  proof (cases "scaler self xs")
    case (Inl e)
    then have "\<forall>k. predict_try lib self k url m = Inl e"
      using st [of e _ m] by blast
    then show ?thesis by blast
  next
    case s1: (Inr scaled)
    show ?thesis
    proof (cases "dict_getitem (models self) ?name")
      case (Inl e)
      then have "\<forall>k. predict_try lib self k url m = Inl e"
        using st [of e _ m scaled] s1 by blast
      then show ?thesis by blast
    next
      case s2: (Inr model)
      show ?thesis
      proof (cases "clf_predict model scaled")
        case (Inl e)
        then have "\<forall>k. predict_try lib self k url m = Inl e"
          using st [of e _ m scaled model] s1 s2 by blast
        then show ?thesis by blast
      next
        case s3: (Inr prediction)
        show ?thesis
        proof (cases "clf_predict_proba model scaled")
          case (Inl e)
          then have "\<forall>k. predict_try lib self k url m = Inl e"
            using st [of e _ m scaled model prediction] s1 s2 s3 by blast
          then show ?thesis by blast
        next
          case s4: (Inr probabilities)
          show ?thesis
          proof (cases "label_encoder self prediction")
            case (Inl e)
            then have "\<forall>k. predict_try lib self k url m = Inl e"
              using st [of e _ m scaled model prediction probabilities] s1 s2 s3 s4 by blast
            then show ?thesis by blast
          next
            case s5: (Inr attack_type)
            show ?thesis
            proof (cases "np_max probabilities")
              case (Inl e)
              then have "\<forall>k. predict_try lib self k url m = Inl e"
                using st [of e _ m scaled model prediction probabilities attack_type]
                  s1 s2 s3 s4 s5 by blast
              then show ?thesis by blast
            next
              case s6: (Inr confidence)
              show ?thesis
              proof (cases "all_probabilities_loop self probabilities 0 []")
                case (Inl e)
                then have "\<forall>k. predict_try lib self k url m = Inl e"
                  using st [of e _ m scaled model prediction probabilities attack_type confidence]
                    s1 s2 s3 s4 s5 s6 by blast
                then show ?thesis by blast
              next
                case s7: (Inr all_probabilities)
                show ?thesis
                  using predict_try_succeeds [OF assms s1 s2 s3 s4 s5 s6 s7] by blast
              qed
            qed
          qed
        qed
      qed
    qed
  qed
qed

lemma predict_untimed:
  "untimed (fst (predict lib self k url m)) = untimed (fst (predict lib self k' url m))"
proof -
  obtain xs where arr: "np_array (prepare_feature_vector (feature_columns self)
      (extract_features lib self url None)) = Inr xs"
    using feature_vector_converts [of "feature_columns self" lib self url] by blast
  from predict_try_cases [OF arr, of m] show ?thesis
  proof (elim disjE exE)
    fix e assume "\<forall>k. predict_try lib self k url m = Inl e"
    then show ?thesis by (simp add: predict_def untimed_def)
  next
    fix attack_type confidence all_probabilities
    assume "\<forall>k. predict_try lib self k url m =
       Inr [(''url'', PStr url),
          (''predicted_attack_type'', PStr attack_type),
          (''confidence'', PFloat confidence),
          (''risk_level'', PStr (determine_risk_level attack_type confidence)),
          (''all_probabilities'', PDict all_probabilities),
          (''features'', PDict (extract_features lib self url None)),
          (''model_used'', PStr (if \<not> dict_contains (models self) m then ''ensemble'' else m)),
          (''model_version'', PStr (model_version self)),
          (''processing_time_ms'', PFloat (real_of_int (now lib (k + 1) - now lib k) / 1000)),
          (''timestamp'', PStr (isoformat lib (now lib (k + 2))))]"
    then show ?thesis by (simp add: predict_def untimed_def)
  qed
qed


lemma batch_predict_untimed:
  "map untimed (fst (batch_predict lib self k urls m)) =
     map (\<lambda>url. untimed (fst (predict lib self k' url m))) urls"
proof (induction urls arbitrary: k)
  case Nil
  show ?case by (simp add: batch_predict_Nil)
next
  case (Cons url urls)
  have "untimed (fst (predict lib self k url m)) = untimed (fst (predict lib self k' url m))"
    by (rule predict_untimed)
  then show ?case
    by (simp add: batch_predict_Cons Cons.IH)
qed

lemma predict_url: "map_of (fst (predict lib self k url m)) ''url'' = Some (PStr url)"
proof (cases "predict_try lib self k url m")
  case (Inl e)
  then show ?thesis by (simp add: predict_def)
next
  case (Inr res)
  then show ?thesis
    using predict_try_result [OF Inr] by (simp add: predict_returns)
qed

lemma sample_host_predict_nonempty:
  assumes "url \<noteq> []"
  shows "predict sample_host_library sample_host_predictor k url ''ensemble'' =
     (error_result sample_host_library (k + 1) url (ValueError ''unexpected input''), k + 2)"
proof -
  have arr: "np_array (prepare_feature_vector (feature_columns sample_host_predictor)
      (extract_features sample_host_library sample_host_predictor url None)) = Inr [0, 0]"
    using nonempty_url_array [OF assms, of sample_host_predictor sample_host_library]
    by (simp add: sample_host_columns)
  have steps:
    "scaler sample_host_predictor [0, 0] = Inr [- 1 / 2, - 1 / 2]"
    "dict_getitem (models sample_host_predictor)
       (if \<not> dict_contains (models sample_host_predictor) ''ensemble'' then ''ensemble''
        else ''ensemble'') = Inr sample_probe"
    "clf_predict sample_probe [- 1 / 2, - 1 / 2] = Inl (ValueError ''unexpected input'')"
    by (simp_all add: sample_host_predictor_def sample_predictor_def sample_probe_def
        dict_getitem_def)
  have "predict_try sample_host_library sample_host_predictor k url ''ensemble'' =
      Inl (ValueError ''unexpected input'')"
    using arr steps by (rule predict_try_model_raises)
  then show ?thesis by (rule predict_raises_error_result)
qed

lemma sample_host_predict_empty:
  "predict sample_host_library sample_host_predictor k [] ''ensemble'' =
     ([(''url'', PStr []),
       (''predicted_attack_type'', PStr ''xss''),
       (''confidence'', PFloat 0.9),
       (''risk_level'', PStr ''critical''),
       (''all_probabilities'', PDict [(''benign'', PFloat 0.1), (''xss'', PFloat 0.9)]),
       (''features'', PDict (extract_features sample_host_library sample_host_predictor [] None)),
       (''model_used'', PStr ''ensemble''),
       (''model_version'', PStr ''1.0.0''),
       (''processing_time_ms'', PFloat 1),
       (''timestamp'',
          PStr (isoformat sample_host_library (now sample_host_library (k + 2))))], k + 3)"
proof -
  have steps:
    "scaler sample_host_predictor [9, 0] = Inr [4, - 1 / 2]"
    "dict_getitem (models sample_host_predictor)
       (if \<not> dict_contains (models sample_host_predictor) ''ensemble'' then ''ensemble''
        else ''ensemble'') = Inr sample_probe"
    "clf_predict sample_probe [4, - 1 / 2] = Inr 1"
    "clf_predict_proba sample_probe [4, - 1 / 2] = Inr [0.1, 0.9]"
    "label_encoder sample_host_predictor 1 = Inr ''xss''"
    "np_max [0.1, 0.9] = Inr 0.9"
    "all_probabilities_loop sample_host_predictor [0.1, 0.9] 0 [] =
       Inr [(''benign'', PFloat 0.1), (''xss'', PFloat 0.9)]"
    by (simp_all add: sample_host_predictor_def sample_predictor_def sample_probe_def
        dict_getitem_def np_max_def)
  have env: "model_version sample_host_predictor = ''1.0.0''"
    "now sample_host_library = (\<lambda>k. 1000 * int k)"
    "determine_risk_level ''xss'' 0.9 = ''critical''"
    "dict_contains (models sample_host_predictor) ''ensemble''"
    by (simp_all add: sample_host_predictor_def sample_predictor_def sample_host_library_def
        sample_library_def determine_risk_level_def high_risk_attacks_def dict_contains_def)
  show ?thesis
    using predict_try_succeeds [OF sample_host_array steps, of k, THEN predict_returns]
    by (simp add: env)
qed

text \<open>
  C6. \<^verbatim>\<open>batch_predict\<close> returns one result per URL, in the order of the URLs: result \<open>i\<close>
  is the result of \<^verbatim>\<open>predict\<close> on URL \<open>i\<close>, called when the earlier URLs have been
  processed, and it carries URL \<open>i\<close>. Apart from the two fields read off the clock
  (\<^verbatim>\<open>timestamp\<close> and \<^verbatim>\<open>processing_time_ms\<close>), each result is what \<^verbatim>\<open>predict\<close> returns for
  its URL alone at any time, so no result depends on the other URLs of the batch: a URL that
  produces an error result changes nothing in the results before or after it.
\<close>

theorem batch_predict_one_result_per_url:
  "length (fst (batch_predict lib self k urls m)) = length urls \<and>
   (\<forall>i < length urls.
      fst (batch_predict lib self k urls m) ! i =
        fst (predict lib self (snd (batch_predict lib self k (take i urls) m)) (urls ! i) m) \<and>
      map_of (fst (batch_predict lib self k urls m) ! i) ''url'' = Some (PStr (urls ! i)) \<and>
      untimed (fst (batch_predict lib self k urls m) ! i) =
        untimed (fst (predict lib self k' (urls ! i) m))) \<and>
   map untimed (fst (batch_predict lib self k urls m)) =
     map (\<lambda>url. untimed (fst (predict lib self k' url m))) urls \<and>
   map untimed (fst (batch_predict lib self k (before @ url # after) m)) =
     map untimed (fst (batch_predict lib self k before m)) @
     untimed (fst (predict lib self k' url m)) #
     map untimed (fst (batch_predict lib self k' after m))"
proof -
  have len: "length (fst (batch_predict lib self k urls m)) = length urls"
    by (rule batch_predict_length)
  have each: "\<forall>i < length urls.
      fst (batch_predict lib self k urls m) ! i =
        fst (predict lib self (snd (batch_predict lib self k (take i urls) m)) (urls ! i) m) \<and>
      map_of (fst (batch_predict lib self k urls m) ! i) ''url'' = Some (PStr (urls ! i)) \<and>
      untimed (fst (batch_predict lib self k urls m) ! i) =
        untimed (fst (predict lib self k' (urls ! i) m))"
  proof (intro allI impI)
    fix i assume i: "i < length urls"
    have a: "fst (batch_predict lib self k urls m) ! i =
        fst (predict lib self (snd (batch_predict lib self k (take i urls) m)) (urls ! i) m)"
      using i by (rule batch_predict_nth)
    have b: "map_of (fst (predict lib self (snd (batch_predict lib self k (take i urls) m))
        (urls ! i) m)) ''url'' = Some (PStr (urls ! i))"
      by (rule predict_url)
    have c: "untimed (fst (predict lib self (snd (batch_predict lib self k (take i urls) m))
        (urls ! i) m)) = untimed (fst (predict lib self k' (urls ! i) m))"
      by (rule predict_untimed)
    from a b c show "fst (batch_predict lib self k urls m) ! i =
        fst (predict lib self (snd (batch_predict lib self k (take i urls) m)) (urls ! i) m) \<and>
      map_of (fst (batch_predict lib self k urls m) ! i) ''url'' = Some (PStr (urls ! i)) \<and>
      untimed (fst (batch_predict lib self k urls m) ! i) =
        untimed (fst (predict lib self k' (urls ! i) m))"
      by simp
  qed
  have whole: "map untimed (fst (batch_predict lib self k urls m)) =
     map (\<lambda>url. untimed (fst (predict lib self k' url m))) urls"
    by (rule batch_predict_untimed)
  have split_batch: "map untimed (fst (batch_predict lib self k (before @ url # after) m)) =
     map untimed (fst (batch_predict lib self k before m)) @
     untimed (fst (predict lib self k' url m)) #
     map untimed (fst (batch_predict lib self k' after m))"
    by (simp add: batch_predict_untimed [where k' = k'])
  from len each whole split_batch show ?thesis by blast
qed

theorem batch_predict_one_result_per_url_witness:
  "length (fst (batch_predict sample_host_library sample_host_predictor 0
       [''a'', [], ''b''] ''ensemble'')) = 3 \<and>
   fst (batch_predict sample_host_library sample_host_predictor 0
       [''a'', [], ''b''] ''ensemble'') ! 1 =
     fst (predict sample_host_library sample_host_predictor 2 [] ''ensemble'') \<and>
   map untimed (fst (batch_predict sample_host_library sample_host_predictor 0
       [''a'', [], ''b''] ''ensemble'')) =
     [[(''url'', PStr ''a''), (''error'', PStr ''unexpected input'')],
      [(''url'', PStr []),
       (''predicted_attack_type'', PStr ''xss''),
       (''confidence'', PFloat 0.9),
       (''risk_level'', PStr ''critical''),
       (''all_probabilities'', PDict [(''benign'', PFloat 0.1), (''xss'', PFloat 0.9)]),
       (''features'', PDict (extract_features sample_host_library sample_host_predictor [] None)),
       (''model_used'', PStr ''ensemble''),
       (''model_version'', PStr ''1.0.0'')],
      [(''url'', PStr ''b''), (''error'', PStr ''unexpected input'')]]"
proof -
  note run = batch_predict_one_result_per_url
      [where lib = sample_host_library and self = sample_host_predictor and k = 0
        and urls = "[''a'', [], ''b'']" and m = "''ensemble''" and k' = 0
        and before = "[''a'']" and url = "[]" and after = "[''b'']"]
  have ne: "''a'' \<noteq> []" "''b'' \<noteq> []" by simp_all
  have clock: "snd (batch_predict sample_host_library sample_host_predictor 0
      (take 1 [''a'', [], ''b'']) ''ensemble'') = 2"
    by (simp add: batch_predict_Cons batch_predict_Nil sample_host_predict_nonempty [OF ne(1)])
  have len: "length (fst (batch_predict sample_host_library sample_host_predictor 0
       [''a'', [], ''b''] ''ensemble'')) = 3"
    using run [THEN conjunct1] by simp
  have second: "fst (batch_predict sample_host_library sample_host_predictor 0
       [''a'', [], ''b''] ''ensemble'') ! 1 =
     fst (predict sample_host_library sample_host_predictor 2 [] ''ensemble'')"
    using run [THEN conjunct2, THEN conjunct1, rule_format, where i = 1, THEN conjunct1] clock
    by simp
  have all: "map untimed (fst (batch_predict sample_host_library sample_host_predictor 0
       [''a'', [], ''b''] ''ensemble'')) =
     [[(''url'', PStr ''a''), (''error'', PStr ''unexpected input'')],
      [(''url'', PStr []),
       (''predicted_attack_type'', PStr ''xss''),
       (''confidence'', PFloat 0.9),
       (''risk_level'', PStr ''critical''),
       (''all_probabilities'', PDict [(''benign'', PFloat 0.1), (''xss'', PFloat 0.9)]),
       (''features'', PDict (extract_features sample_host_library sample_host_predictor [] None)),
       (''model_used'', PStr ''ensemble''),
       (''model_version'', PStr ''1.0.0'')],
      [(''url'', PStr ''b''), (''error'', PStr ''unexpected input'')]]"
    using run [THEN conjunct2, THEN conjunct2, THEN conjunct1]
    by (simp add: sample_host_predict_nonempty [OF ne(1)] sample_host_predict_nonempty [OF ne(2)]
        sample_host_predict_empty untimed_def error_result_def)
  from len second all show ?thesis by simp
qed

end
